theory Spec2Isabelle
  imports Main "HOL-Library.Word" "HOL-Library.Sublist"
begin

unbundle bit_operations_syntax

section \<open>Values shared by the codecs and the client\<close>

text \<open>
  JavaScript numbers are modelled by \<open>int\<close>: every number the modelled code handles is an
  integer (bytes, lengths, masks, identifiers, timestamps in milliseconds), and on integers
  below \<open>2 ^ 53\<close> the arithmetic of the source is exact. A thrown exception is a value of
  \<open>exn\<close> carrying the message of the source.
\<close>

datatype exn = SftpError string | TypeError string | RangeError string

subsection \<open>enums.ts\<close>

text \<open>
  Modelled from the spec: the file \<open>enums.ts\<close> (\<open>SftpOpenFlags\<close>, \<open>SftpPacketType\<close>,
  \<open>SftpStatusCode\<close>) is not among the sources. The spec fixes "opcodes and status codes
  are fixed small integers per SFTP v3" and the open-flag bitmask READ, WRITE, CREATE, TRUNC,
  EXCL, APPEND; the numbers below are those of SFTP version 3, and the literal cases of
  \<open>SftpFlags.fromNumber\<close> (1, 2, 3, 10, 11, 14, 15, 26, 27, 42, 43, 46, 47) agree with them.
\<close>

definition OF_READ :: int where "OF_READ = 1"
definition OF_WRITE :: int where "OF_WRITE = 2"
definition OF_APPEND :: int where "OF_APPEND = 4"
definition OF_CREATE :: int where "OF_CREATE = 8"
definition OF_TRUNC :: int where "OF_TRUNC = 16"
definition OF_EXCL :: int where "OF_EXCL = 32"
definition OF_ALL :: int where "OF_ALL = 63"

definition PT_INIT :: int where "PT_INIT = 1"
definition PT_VERSION :: int where "PT_VERSION = 2"
definition PT_READ :: int where "PT_READ = 5"
definition PT_RENAME :: int where "PT_RENAME = 18"
definition PT_STATUS :: int where "PT_STATUS = 101"
definition PT_HANDLE :: int where "PT_HANDLE = 102"
definition PT_DATA :: int where "PT_DATA = 103"
definition PT_NAME :: int where "PT_NAME = 104"
definition PT_ATTRS :: int where "PT_ATTRS = 105"
definition PT_EXTENDED :: int where "PT_EXTENDED = 200"
definition PT_EXTENDED_REPLY :: int where "PT_EXTENDED_REPLY = 201"

definition SC_OK :: int where "SC_OK = 0"
definition SC_EOF :: int where "SC_EOF = 1"
definition SC_NO_SUCH_FILE :: int where "SC_NO_SUCH_FILE = 2"
definition SC_PERMISSION_DENIED :: int where "SC_PERMISSION_DENIED = 3"
definition SC_FAILURE :: int where "SC_FAILURE = 4"
definition SC_BAD_MESSAGE :: int where "SC_BAD_MESSAGE = 5"
definition SC_NO_CONNECTION :: int where "SC_NO_CONNECTION = 6"
definition SC_CONNECTION_LOST :: int where "SC_CONNECTION_LOST = 7"
definition SC_OP_UNSUPPORTED :: int where "SC_OP_UNSUPPORTED = 8"

section \<open>SftpFlags\<close>

text \<open>
  \<open>toNumber\<close> is declared on strings but tests \<open>typeof flags === 'number'\<close> first, so its
  argument is either of the two.
\<close>

datatype flags_arg = FlagsStr string | FlagsNum int

definition toNumber :: "flags_arg \<Rightarrow> exn + int" where
  "toNumber flags =
    (case flags of
       FlagsNum n \<Rightarrow> Inr (n AND OF_ALL)
     | FlagsStr s \<Rightarrow>
        (if s = ''r'' then Inr OF_READ
         else if s = ''r+'' then Inr (OF_READ OR OF_WRITE)
         else if s = ''w'' then Inr (OF_WRITE OR OF_CREATE OR OF_TRUNC)
         else if s = ''w+'' then Inr (OF_WRITE OR OF_CREATE OR OF_TRUNC OR OF_READ)
         else if s = ''wx'' \<or> s = ''xw'' then Inr (OF_WRITE OR OF_CREATE OR OF_EXCL)
         else if s = ''wx+'' \<or> s = ''xw+'' then Inr (OF_WRITE OR OF_CREATE OR OF_EXCL OR OF_READ)
         else if s = ''a'' then Inr (OF_WRITE OR OF_CREATE OR OF_APPEND)
         else if s = ''a+'' then Inr (OF_WRITE OR OF_CREATE OR OF_APPEND OR OF_READ)
         else if s = ''ax'' \<or> s = ''xa'' then Inr (OF_WRITE OR OF_CREATE OR OF_APPEND OR OF_EXCL)
         else if s = ''ax+'' \<or> s = ''xa+''
           then Inr (OF_WRITE OR OF_CREATE OR OF_APPEND OR OF_EXCL OR OF_READ)
         else Inl (SftpError (''Invalid flags '' @ [CHR 0x27] @ s @ [CHR 0x27]))))"

text \<open>The four normalisation steps of \<open>fromNumber\<close>, before its switch.\<close>

definition normalize_flags :: "int \<Rightarrow> int" where
  "normalize_flags flags0 =
    (let flags1 = flags0 AND OF_ALL;
         flags2 = (if flags1 AND OF_EXCL \<noteq> 0 then flags1 AND (OF_ALL XOR OF_TRUNC) else flags1);
         flags3 = (if flags2 AND OF_TRUNC \<noteq> 0 then flags2 AND (OF_ALL XOR OF_APPEND) else flags2);
         flags4 = (if flags3 AND (OF_READ OR OF_WRITE) = 0 then flags3 OR OF_READ else flags3)
     in if flags4 AND OF_CREATE = 0 then flags4 AND (OF_READ OR OF_WRITE)
        else flags4 OR OF_WRITE)"

definition fromNumber :: "int \<Rightarrow> exn + string list" where
  "fromNumber flags0 =
    (let flags = normalize_flags flags0 in
     if flags = 1 then Inr [''r'']
     else if flags = 2 \<or> flags = 3 then Inr [''r+'']
     else if flags = 10 then Inr [''wx'', ''r+'']
     else if flags = 11 then Inr [''wx+'', ''r+'']
     else if flags = 14 then Inr [''a'']
     else if flags = 15 then Inr [''a+'']
     else if flags = 26 then Inr [''w'']
     else if flags = 27 then Inr [''w+'']
     else if flags = 42 then Inr [''wx'']
     else if flags = 43 then Inr [''wx+'']
     else if flags = 46 then Inr [''ax'']
     else if flags = 47 then Inr [''ax+'']
     else Inl (SftpError ''Unsupported flags''))"

text \<open>
  The two compositions of the flags law. \<open>fromNumber(mask)[0]\<close> of an empty array is
  \<open>undefined\<close>, which \<open>toNumber\<close> rejects in its default case.
\<close>

definition mask_of_first :: "int \<Rightarrow> exn + int" where
  "mask_of_first m =
    (case fromNumber m of
       Inl e \<Rightarrow> Inl e
     | Inr [] \<Rightarrow> toNumber (FlagsStr ''undefined'')
     | Inr (s # rest) \<Rightarrow> toNumber (FlagsStr s))"

definition strings_of_mode :: "string \<Rightarrow> exn + string list" where
  "strings_of_mode s = (case toNumber (FlagsStr s) of Inl e \<Rightarrow> Inl e | Inr m \<Rightarrow> fromNumber m)"

definition mask_roundtrips :: "int \<Rightarrow> bool" where
  "mask_roundtrips m = (mask_of_first m = Inr (normalize_flags m))"

definition mode_roundtrips :: "string \<Rightarrow> bool" where
  "mode_roundtrips s = (case strings_of_mode s of Inl e \<Rightarrow> False | Inr l \<Rightarrow> s \<in> set l)"

section \<open>Exceptions and mutable objects\<close>

text \<open>
  A method of a mutable object is a function from the object's state to an outcome and the
  state it leaves behind. A \<open>throw\<close> keeps the state reached when it happens, since the
  caller who catches the exception still holds the object.
\<close>

type_synonym ('s, 'a) action = "'s \<Rightarrow> (exn + 'a) \<times> 's"

definition ret :: "'a \<Rightarrow> ('s, 'a) action" where
  "ret a s = (Inr a, s)"

definition throw :: "exn \<Rightarrow> ('s, 'a) action" where
  "throw e s = (Inl e, s)"

definition seq :: "('s, 'a) action \<Rightarrow> ('a \<Rightarrow> ('s, 'b) action) \<Rightarrow> ('s, 'b) action" where
  "seq m f s = (case m s of (Inl e, s') \<Rightarrow> (Inl e, s') | (Inr a, s') \<Rightarrow> f a s')"

subsection \<open>32-bit operators of JavaScript\<close>

text \<open>
  The operators \<open>|\<close>, \<open>&\<close>, \<open><<\<close> and \<open>>>\<close> convert their operands to signed 32-bit integers
  and give a signed 32-bit result.
\<close>

definition to_int32 :: "int \<Rightarrow> int" where
  "to_int32 v = (v + 2 ^ 31) mod 2 ^ 32 - 2 ^ 31"

definition js_or :: "int \<Rightarrow> int \<Rightarrow> int" where
  "js_or a b = to_int32 (to_int32 a OR to_int32 b)"

definition js_and :: "int \<Rightarrow> int \<Rightarrow> int" where
  "js_and a b = to_int32 (to_int32 a AND to_int32 b)"

definition js_shl :: "int \<Rightarrow> nat \<Rightarrow> int" where
  "js_shl a n = to_int32 (push_bit n (to_int32 a))"

definition js_sar :: "int \<Rightarrow> nat \<Rightarrow> int" where
  "js_sar a n = drop_bit n (to_int32 a)"

subsection \<open>Typed arrays\<close>

type_synonym byte = "8 word"

text \<open>An element read outside the array is \<open>undefined\<close>, and \<open>undefined & 0xFF\<close> is 0.\<close>

definition byte_at :: "byte list \<Rightarrow> int \<Rightarrow> int" where
  "byte_at buf i = (if 0 \<le> i \<and> i < int (length buf) then js_and (uint (buf ! nat i)) 255 else 0)"

text \<open>\<open>subarray(begin, end)\<close>: a negative index counts from the end, and both are clamped.\<close>

definition clamp_index :: "nat \<Rightarrow> int \<Rightarrow> nat" where
  "clamp_index n i = (if i < 0 then nat (max (int n + i) 0) else nat (min i (int n)))"

definition subarray :: "byte list \<Rightarrow> int \<Rightarrow> int \<Rightarrow> byte list" where
  "subarray xs b e =
    (let b' = clamp_index (length xs) b; e' = clamp_index (length xs) e
     in take (e' - b') (drop b' xs))"

subsection \<open>charsets.ts\<close>

text \<open>
  Modelled from the spec: the file \<open>charsets.ts\<close> (\<open>decodeUTF8\<close>, \<open>encodeUTF8\<close>) is not
  among the sources. The spec says of strings "u32 byte length followed by UTF-8 bytes,
  decoded/encoded with a dedicated charset transform". A string of the model is the
  sequence of its UTF-8 bytes (a \<open>char\<close> is a byte), which is the text itself on ASCII;
  the decoder takes the bytes from \<open>start\<close> up to \<open>end\<close>, the encoder gives the bytes back.
\<close>

definition decodeUTF8 :: "byte list \<Rightarrow> int \<Rightarrow> int \<Rightarrow> string" where
  "decodeUTF8 buf start end =
    map (\<lambda>b. char_of (unat b)) (take (nat (end - max 0 start)) (drop (nat start) buf))"

definition utf8_bytes :: "string \<Rightarrow> byte list" where
  "utf8_bytes s = map (\<lambda>c. of_nat (of_char c)) s"

section \<open>SftpPacket\<close>

text \<open>
  The type of a packet is a number, or the name of an extended request; the constructor of
  a raw reader sets it to \<open>null\<close>.
\<close>

datatype ptype = TNum int | TStr string | TNull

record SftpPacket =
  type_p :: ptype
  id_p :: "int option"
  position :: int
  length_p :: int

definition check :: "int \<Rightarrow> ('a SftpPacket_scheme, unit) action" where
  "check count p =
    (let remaining = length_p p - position p
     in if count > remaining then throw (SftpError ''Unexpected end of packet'') p else ret () p)"

definition skip :: "int \<Rightarrow> ('a SftpPacket_scheme, unit) action" where
  "skip count = seq (check count) (\<lambda>_ p. ret () (p\<lparr>position := position p + count\<rparr>))"

section \<open>SftpPacketReader\<close>

record SftpPacketReader = SftpPacket +
  buffer :: "byte list"

text \<open>\<open>this.buffer[this.position++] & 0xFF\<close>\<close>

definition next_byte :: "(SftpPacketReader, int) action" where
  "next_byte r = ret (byte_at (buffer r) (position r)) (r\<lparr>position := position r + 1\<rparr>)"

definition readByte :: "(SftpPacketReader, int) action" where
  "readByte = seq (check 1) (\<lambda>_. next_byte)"



text \<open>
  Every \<open>|=\<close> leaves a signed 32-bit value, so \<open>readUint32\<close> answers a negative number
  when the first byte is 128 or more, and \<open>readInt32\<close> then subtracts \<open>2 ^ 32\<close> from it.
\<close>

definition readUint32 :: "(SftpPacketReader, int) action" where
  "readUint32 =
    seq (check 4) (\<lambda>_.
    seq next_byte (\<lambda>b3.
    seq next_byte (\<lambda>b2.
    seq next_byte (\<lambda>b1.
    seq next_byte (\<lambda>b0.
    ret (js_or (js_or (js_or (js_or 0 (js_shl b3 24)) (js_shl b2 16)) (js_shl b1 8)) b0))))))"

definition readInt32 :: "(SftpPacketReader, int) action" where
  "readInt32 =
    seq readUint32 (\<lambda>v. ret (if js_and v 0x80000000 \<noteq> 0 then v - 0x100000000 else v))"

text \<open>The product and sum are exact here; the source rounds them above \<open>2 ^ 53\<close>.\<close>

definition readInt64 :: "(SftpPacketReader, int) action" where
  "readInt64 =
    seq readInt32 (\<lambda>hi.
    seq readUint32 (\<lambda>lo.
    ret (hi * 0x100000000 + lo)))"

definition readString :: "(SftpPacketReader, string) action" where
  "readString =
    seq readInt32 (\<lambda>len.
    seq (check len) (\<lambda>_ r.
      (let end = position r + len;
           v = decodeUTF8 (buffer r) (position r) end
       in ret v (r\<lparr>position := end\<rparr>))))"

definition skipString :: "(SftpPacketReader, unit) action" where
  "skipString =
    seq readInt32 (\<lambda>len.
    seq (check len) (\<lambda>_ r.
      (let end = position r + len in ret () (r\<lparr>position := end\<rparr>))))"

text \<open>
  With \<open>clone\<close> the result is a fresh array of \<open>length\<close> bytes holding the view at its
  front; \<open>new Uint8Array(length)\<close> throws a RangeError for a negative length, after the
  position has moved.
\<close>

definition readData :: "bool \<Rightarrow> (SftpPacketReader, byte list) action" where
  "readData clone =
    seq readInt32 (\<lambda>len.
    seq (check len) (\<lambda>_ r.
      (let start = position r;
           end = start + len;
           r' = r\<lparr>position := end\<rparr>;
           view = subarray (buffer r) start end
       in if clone then
            (if len < 0 then throw (RangeError ''Invalid typed array length'') r'
             else ret (view @ replicate (nat len - length view) 0) r')
          else ret view r')))"

text \<open>The constructor in raw mode, which reads no envelope.\<close>

definition raw_reader :: "byte list \<Rightarrow> SftpPacketReader" where
  "raw_reader buf =
    \<lparr>type_p = TNull, id_p = None, position = 0, length_p = int (length buf), buffer = buf\<rparr>"

definition readStructuredData :: "(SftpPacketReader, SftpPacketReader) action" where
  "readStructuredData = seq (readData False) (\<lambda>data. ret (raw_reader data))"

text \<open>
  The constructor on a received packet, which reads the envelope. The equality tests on
  the type are between numbers here.
\<close>

definition read_envelope :: "(SftpPacketReader, unit) action" where
  "read_envelope =
    seq readInt32 (\<lambda>len0 r0.
      if len0 + 4 \<noteq> length_p r0 then throw (SftpError ''Invalid packet received'') r0
      else
        seq readByte (\<lambda>t r1.
          if t = PT_INIT \<or> t = PT_VERSION then ret () (r1\<lparr>type_p := TNum t, id_p := None\<rparr>)
          else
            seq readInt32 (\<lambda>i r2.
              if t = PT_EXTENDED
              then seq readString (\<lambda>s r3. ret () (r3\<lparr>type_p := TStr s\<rparr>))
                     (r2\<lparr>type_p := TNum t, id_p := Some i\<rparr>)
              else ret () (r2\<lparr>type_p := TNum t, id_p := Some i\<rparr>))
            (r1\<lparr>type_p := TNum t\<rparr>))
        r0)"

definition new_SftpPacketReader :: "byte list \<Rightarrow> exn + SftpPacketReader" where
  "new_SftpPacketReader buf =
    (case read_envelope (raw_reader buf) of
       (Inl e, r) \<Rightarrow> Inl e
     | (Inr u, r) \<Rightarrow> Inr r)"

section \<open>SftpExtensions\<close>

definition POSIX_RENAME :: string where "POSIX_RENAME = ''posix-rename@openssh.com''"
definition STATVFS :: string where "STATVFS = ''statvfs@openssh.com''"
definition FSTATVFS :: string where "FSTATVFS = ''fstatvfs@openssh.com''"
definition HARDLINK :: string where "HARDLINK = ''hardlink@openssh.com''"
definition FSYNC :: string where "FSYNC = ''fsync@openssh.com''"
definition NEWLINE :: string where "NEWLINE = ''newline@sftp.ws''"
definition NEWLINE2 :: string where "NEWLINE2 = ''newline''"
definition NEWLINE3 :: string where "NEWLINE3 = ''newline@vandyke.com''"
definition CHARSET :: string where "CHARSET = ''charset@sftp.ws''"
definition METADATA :: string where "METADATA = ''meta@sftp.ws''"
definition VERSIONS :: string where "VERSIONS = ''versions''"
definition VENDOR :: string where "VENDOR = ''vendor-id''"

text \<open>
  \<open>isKnown(name)\<close> is \<open>SftpExtensions.hasOwnProperty(name)\<close>: it asks whether the class
  object has a property of that name. The own properties of the class object are its static
  fields, named by their identifiers, its static methods, and the properties that every
  function object has.
\<close>

definition SftpExtensions_own_properties :: "string list" where
  "SftpExtensions_own_properties =
    [''POSIX_RENAME'', ''STATVFS'', ''FSTATVFS'', ''HARDLINK'', ''FSYNC'', ''NEWLINE'',
     ''NEWLINE2'', ''NEWLINE3'', ''CHARSET'', ''METADATA'', ''VERSIONS'', ''VENDOR'',
     ''isKnown'', ''contains'', ''write'', ''read'',
     ''length'', ''name'', ''prototype'']"

definition isKnown :: "string \<Rightarrow> bool" where
  "isKnown name = (name \<in> set SftpExtensions_own_properties)"

text \<open>\<open>indexOf\<close> on strings: the first index at which \<open>sub\<close> occurs, or \<open>-1\<close>.\<close>

fun index_from :: "string \<Rightarrow> string \<Rightarrow> int \<Rightarrow> int" where
  "index_from sub [] i = (if sub = [] then i else -1)"
| "index_from sub (c # cs) i = (if prefix sub (c # cs) then i else index_from sub cs (i + 1))"

definition indexOf :: "string \<Rightarrow> string \<Rightarrow> int" where
  "indexOf s sub = index_from sub s 0"

text \<open>
  The value that \<open>read\<close> returns: a string, opaque data, or the object built for
  \<open>vendor-id\<close>.
\<close>

datatype ext_value =
    ExtString string
  | ExtData "byte list"
  | ExtVendor (vendorName: string) (productName: string) (productVersion: string) (productBuild: int)

text \<open>Reading from the structured sub-reader; the sub-reader is dropped afterwards.\<close>

definition in_structured :: "(SftpPacketReader, 'a) action \<Rightarrow> (SftpPacketReader, 'a) action" where
  "in_structured m =
    seq readStructuredData (\<lambda>sub r.
      case m sub of (Inl e, sub') \<Rightarrow> throw e r | (Inr a, sub') \<Rightarrow> ret a r)"

definition SftpExtensions_read :: "string \<Rightarrow> (SftpPacketReader, ext_value) action" where
  "SftpExtensions_read name =
    (if name = VENDOR then
       in_structured
         (seq readString (\<lambda>vn.
          seq readString (\<lambda>pn.
          seq readString (\<lambda>pv.
          seq readInt64 (\<lambda>pb.
          ret (ExtVendor vn pn pv pb))))))
     else if name = NEWLINE3 then
       in_structured (seq readString (\<lambda>s. ret (ExtString s)))
     else if isKnown name then seq readString (\<lambda>s. ret (ExtString s))
     else seq (readData True) (\<lambda>d. ret (ExtData d)))"

text \<open>
  \<open>contains(values, value)\<close> concatenates its first argument into a string. A missing map
  entry gives \<open>undefined\<close>; a typed array gives its elements in decimal, joined by commas;
  an object gives \<open>[object Object]\<close>.
\<close>

fun digits_of :: "nat \<Rightarrow> nat \<Rightarrow> string" where
  "digits_of 0 n = ''''"
| "digits_of (Suc fuel) n =
    (if n < 10 then [char_of (48 + n)]
     else digits_of fuel (n div 10) @ [char_of (48 + n mod 10)])"

definition decimal :: "nat \<Rightarrow> string" where
  "decimal n = digits_of (Suc n) n"

fun join_commas :: "string list \<Rightarrow> string" where
  "join_commas [] = ''''"
| "join_commas [s] = s"
| "join_commas (s # t # rest) = s @ '','' @ join_commas (t # rest)"

definition ext_to_string :: "ext_value option \<Rightarrow> string" where
  "ext_to_string v =
    (case v of
       None \<Rightarrow> ''undefined''
     | Some (ExtString s) \<Rightarrow> s
     | Some (ExtData d) \<Rightarrow> join_commas (map (\<lambda>b. decimal (unat b)) d)
     | Some (ExtVendor vn pn pv pb) \<Rightarrow> ''[object Object]'')"

definition contains :: "ext_value option \<Rightarrow> string \<Rightarrow> bool" where
  "contains vals val = (indexOf ('','' @ ext_to_string vals @ '','') ('','' @ val @ '','') \<ge> 0)"

section \<open>SftpPacketWriter\<close>

text \<open>
  A number where \<open>undefined\<close> or \<open>null\<close> may stand: the 32-bit operators and the sum read both
  as 0.
\<close>

definition num :: "int option \<Rightarrow> int" where
  "num v = (case v of None \<Rightarrow> 0 | Some n \<Rightarrow> n)"

text \<open>
  The writer owns a typed array of fixed length, all zero at first. It is modelled by its
  content as a function of the index; \<open>length_p\<close> is its length. A store outside the
  array has no effect.
\<close>

record SftpPacketWriter = SftpPacket +
  wbuffer :: "nat \<Rightarrow> byte"

definition new_SftpPacketWriter :: "int \<Rightarrow> SftpPacketWriter" where
  "new_SftpPacketWriter len =
    \<lparr>type_p = TNull, id_p = None, position = 0, length_p = len, wbuffer = (\<lambda>i. 0)\<rparr>"

definition store :: "(nat \<Rightarrow> byte) \<Rightarrow> int \<Rightarrow> int \<Rightarrow> byte \<Rightarrow> (nat \<Rightarrow> byte)" where
  "store buf len i b = (if 0 \<le> i \<and> i < len then buf(nat i := b) else buf)"

fun store_all :: "(nat \<Rightarrow> byte) \<Rightarrow> int \<Rightarrow> int \<Rightarrow> byte list \<Rightarrow> (nat \<Rightarrow> byte)" where
  "store_all buf len i [] = buf"
| "store_all buf len i (b # bs) = store_all (store buf len i b) len (i + 1) bs"

text \<open>\<open>this.buffer[this.position++] = v & 0xFF\<close>\<close>

definition put_byte :: "int \<Rightarrow> (SftpPacketWriter, unit) action" where
  "put_byte v w =
    ret () (w\<lparr>wbuffer := store (wbuffer w) (length_p w) (position w) (of_int (js_and v 255)),
             position := position w + 1\<rparr>)"

definition writeByte :: "int \<Rightarrow> (SftpPacketWriter, unit) action" where
  "writeByte v = seq (check 1) (\<lambda>_. put_byte v)"

definition writeInt32 :: "int \<Rightarrow> (SftpPacketWriter, unit) action" where
  "writeInt32 v =
    seq (check 4) (\<lambda>_.
    seq (put_byte (js_sar v 24)) (\<lambda>_.
    seq (put_byte (js_sar v 16)) (\<lambda>_.
    seq (put_byte (js_sar v 8)) (\<lambda>_.
    put_byte v))))"

text \<open>
  A quotient that is not whole is cut towards zero by the conversion to 32 bits. Both
  divisors of the source are positive constants.
\<close>

definition trunc_quot :: "int \<Rightarrow> int \<Rightarrow> int" where
  "trunc_quot v d = (if v < 0 then - ((- v) div d) else v div d)"

definition writeInt64 :: "int \<Rightarrow> (SftpPacketWriter, unit) action" where
  "writeInt64 v =
    (let hi = js_or (trunc_quot v 0x100000000) 0;
         lo = js_or (js_and v 0xFFFFFFFF) 0
     in seq (writeInt32 hi) (\<lambda>_. writeInt32 lo))"

text \<open>
  Modelled from the spec: \<open>encodeUTF8(value, buffer, position)\<close> of the absent
  \<open>charsets.ts\<close> stores the bytes of the string from \<open>position\<close> on and answers their
  number, or a negative number when they do not fit ("insufficient buffer space").
\<close>

definition encodeUTF8 :: "string \<Rightarrow> (SftpPacketWriter, int) action" where
  "encodeUTF8 v w =
    (let bs = utf8_bytes v
     in if position w + int (length bs) > length_p w then ret (-1) w
        else ret (int (length bs)) (w\<lparr>wbuffer := store_all (wbuffer w) (length_p w) (position w) bs\<rparr>))"

definition writeString :: "string \<Rightarrow> (SftpPacketWriter, unit) action" where
  "writeString v w0 =
    (let offset = position w0
     in seq (writeInt32 0) (\<lambda>_.
        seq (encodeUTF8 v) (\<lambda>bytesWritten w1.
          if bytesWritten < 0 then throw (SftpError ''Not enough space in the buffer'') w1
          else
            seq (writeInt32 bytesWritten)
              (\<lambda>_ w2. ret () (w2\<lparr>position := position w2 + bytesWritten\<rparr>))
              (w1\<lparr>position := offset\<rparr>)))
        w0)"

text \<open>
  \<open>writeData(data, start, end)\<close>; the range is optional. \<open>buffer.set\<close> throws when the
  data does not fit at the offset.
\<close>

definition writeData :: "byte list \<Rightarrow> (int \<times> int) option \<Rightarrow> (SftpPacketWriter, unit) action" where
  "writeData data0 rng =
    (let data = (case rng of None \<Rightarrow> data0 | Some (start, end) \<Rightarrow> subarray data0 start end);
         len = int (length data)
     in seq (writeInt32 len) (\<lambda>_.
        seq (check len) (\<lambda>_ w.
          if position w < 0 \<or> position w + len > length_p w
          then throw (RangeError ''offset is out of bounds'') w
          else ret () (w\<lparr>wbuffer := store_all (wbuffer w) (length_p w) (position w) data,
                         position := position w + len\<rparr>))))"

definition start :: "(SftpPacketWriter, unit) action" where
  "start w0 =
    seq (writeInt32 0) (\<lambda>_ w1.
      seq (case type_p w1 of TNum n \<Rightarrow> writeByte n | _ \<Rightarrow> writeByte PT_EXTENDED) (\<lambda>_ w2.
        if type_p w2 = TNum PT_INIT \<or> type_p w2 = TNum PT_VERSION then ret () w2
        else
          seq (writeInt32 (js_or (num (id_p w2)) 0)) (\<lambda>_ w3.
            case type_p w3 of
              TNum n \<Rightarrow> ret () w3
            | TStr s \<Rightarrow> writeString s w3
            | TNull \<Rightarrow> writeString ''null'' w3)
          w2)
      w1)
    (w0\<lparr>position := 0\<rparr>)"

text \<open>\<open>finish\<close> patches the length in and answers the bytes written.\<close>

definition finish :: "(SftpPacketWriter, byte list) action" where
  "finish w0 =
    (let len = position w0
     in seq (writeInt32 (len - 4))
          (\<lambda>_ w1. ret (map (wbuffer w1) [0..<nat (min len (length_p w1))]) w1)
          (w0\<lparr>position := 0\<rparr>))"

section \<open>SftpStatus\<close>

definition SftpStatus_write :: "int \<Rightarrow> string \<Rightarrow> (SftpPacketWriter, unit) action" where
  "SftpStatus_write code message w =
    seq start (\<lambda>_.
    seq (writeInt32 code) (\<lambda>_.
    seq (writeString message) (\<lambda>_.
    writeInt32 0)))
    (w\<lparr>type_p := TNum PT_STATUS\<rparr>)"

definition SftpStatus_writeSuccess :: "(SftpPacketWriter, unit) action" where
  "SftpStatus_writeSuccess = SftpStatus_write SC_OK ''OK''"

section \<open>SftpAttributes\<close>

definition AF_SIZE :: int where "AF_SIZE = 0x00000001"
definition AF_UIDGID :: int where "AF_UIDGID = 0x00000002"
definition AF_PERMISSIONS :: int where "AF_PERMISSIONS = 0x00000004"
definition AF_ACMODTIME :: int where "AF_ACMODTIME = 0x00000008"
definition AF_BASIC :: int where "AF_BASIC = 0x0000000F"
definition AF_EXTENDED :: int where "AF_EXTENDED = 0x80000000"

text \<open>
  The metadata object of a caller (\<open>IStats\<close>) and the attributes record. An absent field
  (\<open>undefined\<close>) is \<open>None\<close>. A \<open>Date\<close> is its time value, in milliseconds.
\<close>

record IStats =
  mode_s :: "int option"
  uid_s :: "int option"
  gid_s :: "int option"
  size_s :: "int option"
  atime_s :: "int option"
  mtime_s :: "int option"
  nlink_s :: "int option"

record SftpAttributes =
  flags_a :: "int option"
  size_a :: "int option"
  uid_a :: "int option"
  gid_a :: "int option"
  mode_a :: "int option"
  atime_a :: "int option"
  mtime_a :: "int option"
  nlink_a :: "int option"

definition new_SftpAttributes :: SftpAttributes where
  "new_SftpAttributes =
    \<lparr>flags_a = Some 0, size_a = None, uid_a = None, gid_a = None, mode_a = None,
     atime_a = None, mtime_a = None, nlink_a = None\<rparr>"

text \<open>The constructor with a reader.\<close>

definition SftpAttributes_read :: "(SftpPacketReader, SftpAttributes) action" where
  "SftpAttributes_read =
    seq readUint32 (\<lambda>flags.
    seq (if js_and flags AF_SIZE \<noteq> 0 then seq readInt64 (\<lambda>v. ret (Some v)) else ret None) (\<lambda>sz.
    seq (if js_and flags AF_UIDGID \<noteq> 0
         then seq readInt32 (\<lambda>u. seq readInt32 (\<lambda>g. ret (Some u, Some g)))
         else ret (None, None)) (\<lambda>(u, g).
    seq (if js_and flags AF_PERMISSIONS \<noteq> 0 then seq readUint32 (\<lambda>v. ret (Some v)) else ret None) (\<lambda>m.
    seq (if js_and flags AF_ACMODTIME \<noteq> 0
         then seq readUint32 (\<lambda>a. seq readUint32 (\<lambda>b. ret (Some (1000 * a), Some (1000 * b))))
         else ret (None, None)) (\<lambda>(a, b).
    ret \<lparr>flags_a = Some flags, size_a = sz, uid_a = u, gid_a = g, mode_a = m,
         atime_a = a, mtime_a = b, nlink_a = None\<rparr>)))))"

text \<open>\<open>date.getTime() / 1000\<close>; on \<open>undefined\<close> the call throws.\<close>

definition write_seconds :: "int option \<Rightarrow> (SftpPacketWriter, unit) action" where
  "write_seconds d =
    (case d of
       None \<Rightarrow> throw (TypeError ''Cannot read properties of undefined'')
     | Some ms \<Rightarrow> writeInt32 (trunc_quot ms 1000))"

definition SftpAttributes_write :: "SftpAttributes \<Rightarrow> (SftpPacketWriter, unit) action" where
  "SftpAttributes_write this =
    (let flags = num (flags_a this)
     in seq (writeInt32 flags) (\<lambda>_.
        seq (if js_and flags AF_SIZE \<noteq> 0 then writeInt64 (num (size_a this)) else ret ()) (\<lambda>_.
        seq (if js_and flags AF_UIDGID \<noteq> 0
             then seq (writeInt32 (num (uid_a this))) (\<lambda>_. writeInt32 (num (gid_a this)))
             else ret ()) (\<lambda>_.
        seq (if js_and flags AF_PERMISSIONS \<noteq> 0 then writeInt32 (num (mode_a this)) else ret ()) (\<lambda>_.
        seq (if js_and flags AF_ACMODTIME \<noteq> 0
             then seq (write_seconds (atime_a this)) (\<lambda>_. write_seconds (mtime_a this))
             else ret ()) (\<lambda>_.
        if js_and flags AF_EXTENDED \<noteq> 0 then writeInt32 0 else ret ()))))))"

definition SftpAttributes_from :: "IStats option \<Rightarrow> SftpAttributes \<Rightarrow> SftpAttributes" where
  "SftpAttributes_from stats0 this =
    (case stats0 of
       None \<Rightarrow> this\<lparr>flags_a := Some 0\<rparr>
     | Some stats \<Rightarrow>
        (let (flags1, this1) =
               (if size_s stats \<noteq> None
                then (js_or 0 AF_SIZE, this\<lparr>size_a := Some (js_or (num (size_s stats)) 0)\<rparr>)
                else (0, this));
             (flags2, this2) =
               (if uid_s stats \<noteq> None \<or> gid_s stats \<noteq> None
                then (js_or flags1 AF_UIDGID,
                      this1\<lparr>uid_a := Some (js_or (num (uid_s stats)) 0),
                             gid_a := Some (js_or (num (gid_s stats)) 0)\<rparr>)
                else (flags1, this1));
             (flags3, this3) =
               (if mode_s stats \<noteq> None
                then (js_or flags2 AF_PERMISSIONS, this2\<lparr>mode_a := Some (js_or (num (mode_s stats)) 0)\<rparr>)
                else (flags2, this2));
             (flags4, this4) =
               (if atime_s stats \<noteq> None \<or> mtime_s stats \<noteq> None
                then (js_or flags3 AF_ACMODTIME,
                      this3\<lparr>atime_a := atime_s stats, mtime_a := mtime_s stats\<rparr>)
                else (flags3, this3));
             this5 = (if nlink_s stats \<noteq> None then this4\<lparr>nlink_a := nlink_s stats\<rparr> else this4)
         in this5\<lparr>flags_a := Some flags4\<rparr>))"

text \<open>
  The encoding of an attributes record is what \<open>write\<close> leaves in a fresh writer of the
  size the client uses for a request; decoding is the constructor on those bytes.
\<close>

definition written :: "SftpPacketWriter \<Rightarrow> byte list" where
  "written w = map (wbuffer w) [0..<nat (position w)]"

definition encode_attrs :: "SftpAttributes \<Rightarrow> exn + byte list" where
  "encode_attrs x =
    (case SftpAttributes_write x (new_SftpPacketWriter (32 * 1024 + 1024)) of
       (Inl e, w) \<Rightarrow> Inl e
     | (Inr u, w) \<Rightarrow> Inr (written w))"

definition decode_attrs :: "byte list \<Rightarrow> exn + SftpAttributes" where
  "decode_attrs bs =
    (case SftpAttributes_read (raw_reader bs) of
       (Inl e, r) \<Rightarrow> Inl e
     | (Inr x, r) \<Rightarrow> Inr x)"

definition fromMetadata :: "IStats option \<Rightarrow> SftpAttributes" where
  "fromMetadata stats = SftpAttributes_from stats new_SftpAttributes"

definition recode :: "IStats option \<Rightarrow> exn + SftpAttributes" where
  "recode stats =
    (case encode_attrs (fromMetadata stats) of
       Inl e \<Rightarrow> Inl e
     | Inr bs \<Rightarrow> decode_attrs bs)"

section \<open>Words on the wire\<close>

text \<open>
  The four bytes that \<open>writeInt32\<close> stores for a number, and the number that
  \<open>readUint32\<close> builds from four bytes of a buffer.
\<close>

definition be32 :: "int \<Rightarrow> byte list" where
  "be32 v = [of_int (js_and (js_sar v 24) 255), of_int (js_and (js_sar v 16) 255),
             of_int (js_and (js_sar v 8) 255), of_int (js_and v 255)]"

definition word32_at :: "byte list \<Rightarrow> int \<Rightarrow> int" where
  "word32_at buf p =
     js_or (js_or (js_or (js_or 0 (js_shl (byte_at buf p) 24)) (js_shl (byte_at buf (p + 1)) 16))
        (js_shl (byte_at buf (p + 2)) 8)) (byte_at buf (p + 3))"

text \<open>
  What the round trip through the wire gives for a metadata object: the mask that
  \<open>from\<close> builds, and each number as the reader answers it for the word written.
  \<open>readInt32\<close> answers \<open>to_int32 v - 2 ^ 32\<close> for a word with the top bit set.
\<close>

definition reread32 :: "int \<Rightarrow> int" where
  "reread32 v = (if to_int32 v < 0 then to_int32 v - 0x100000000 else to_int32 v)"

definition mask_of :: "IStats \<Rightarrow> int" where
  "mask_of stats =
    (if size_s stats \<noteq> None then 1 else 0)
    + (if uid_s stats \<noteq> None \<or> gid_s stats \<noteq> None then 2 else 0)
    + (if mode_s stats \<noteq> None then 4 else 0)
    + (if atime_s stats \<noteq> None \<or> mtime_s stats \<noteq> None then 8 else 0)"

definition recoded :: "IStats \<Rightarrow> SftpAttributes" where
  "recoded stats =
    \<lparr>flags_a = Some (mask_of stats),
     size_a = map_option to_int32 (size_s stats),
     uid_a = (if uid_s stats \<noteq> None \<or> gid_s stats \<noteq> None
              then Some (reread32 (num (uid_s stats))) else None),
     gid_a = (if uid_s stats \<noteq> None \<or> gid_s stats \<noteq> None
              then Some (reread32 (num (gid_s stats))) else None),
     mode_a = map_option to_int32 (mode_s stats),
     atime_a = map_option (\<lambda>ms. 1000 * to_int32 (trunc_quot ms 1000)) (atime_s stats),
     mtime_a = map_option (\<lambda>ms. 1000 * to_int32 (trunc_quot ms 1000)) (mtime_s stats),
     nlink_a = None\<rparr>"

text \<open>
  The values that the wire keeps: a whole number from 0 up to \<open>2 ^ 31\<close>, and a time of
  whole seconds in that range.
\<close>

definition keeps_number :: "int option \<Rightarrow> bool" where
  "keeps_number v = (case v of None \<Rightarrow> True | Some n \<Rightarrow> 0 \<le> n \<and> n < 2 ^ 31)"

definition keeps_time :: "int option \<Rightarrow> bool" where
  "keeps_time v =
    (case v of None \<Rightarrow> True | Some ms \<Rightarrow> 0 \<le> ms \<and> ms mod 1000 = 0 \<and> ms div 1000 < 2 ^ 31)"

section \<open>The client core: data\<close>

text \<open>
  A handle given to the caller wraps the bytes of the server's handle and the session that
  made it. An argument passed as a handle is a falsy value, such an object, or something
  else.
\<close>

record SftpHandle =
  handle_bytes :: "byte list"
  owner :: nat


text \<open>
  The command context. \<open>info\<close> objects are built by the operations after their checks, so
  the handle they hold is one that \<open>toHandle\<close> accepted.
\<close>

record CommandProps =
  path :: "string option"
  oldPath :: "string option"
  newPath :: "string option"
  targetPath :: "string option"
  linkPath :: "string option"
  handle :: "SftpHandle option"
  rename_flags :: "int option"

record SftpCommandInfo =
  command :: string
  props :: CommandProps

definition no_props :: CommandProps where
  "no_props = \<lparr>path = None, oldPath = None, newPath = None, targetPath = None, linkPath = None,
               handle = None, rename_flags = None\<rparr>"

text \<open>
  An error object: the message, the fields that \<open>createError\<close> adds, and the properties
  copied from the command context (all of them but the command name).
\<close>

record SftpErrorObject =
  message :: string
  errno :: "int option"
  code :: "string option"
  nativeCode :: "int option"
  description :: "string option"
  copied :: "CommandProps option"

definition plain_error :: "string \<Rightarrow> SftpErrorObject" where
  "plain_error msg =
    \<lparr>message = msg, errno = None, code = None, nativeCode = None, description = None,
     copied = None\<rparr>"

record SftpItem =
  filename :: string
  longname :: string
  stats_i :: SftpAttributes

text \<open>
  A callback is a function of the caller, known by a number. A call of it is recorded with
  the error (\<open>None\<close> for \<open>null\<close>) and the second argument.
\<close>

datatype callback_arg = Fn nat | NotFn

datatype cb_value =
    Absent
  | Null
  | HandleValue SftpHandle
  | DataValue (data_buffer: "byte list") (bytesRead: int)
  | AttrsValue SftpAttributes
  | ItemsValue "SftpItem list"
  | PathValue string

record call =
  target :: nat
  err :: "SftpErrorObject option"
  arg :: cb_value

text \<open>
  The response parser registered with a request. The parsers are methods of the client,
  but for two closures: the one \<open>_init\<close> builds and the one \<open>read\<close> and \<open>parseData\<close> build
  around \<open>parseData\<close>, which keeps the retry count, the handle, the caller's buffer (if
  any), the offset, the length and the position.
\<close>

datatype parser =
    ParseInit
  | ParseStatus
  | ParseAttribs
  | ParseHandle
  | ParsePath
  | ParseItems
  | ParseData int "byte list" "byte list option" int int int

record SftpRequest =
  callback :: nat
  responseParser :: parser
  info :: SftpCommandInfo

text \<open>
  The state of a client, and with it what the client has done to the world: the packets
  handed to the channel, the reasons given to \<open>host.close\<close>, the functions passed to
  \<open>window.setTimeout\<close> (each is one call of a callback, made in a later turn) and the
  calls of callbacks made so far. \<open>host\<close> says whether a channel is bound. The key of
  \<open>requests\<close> is a request id or \<open>null\<close>. The log writer has no effect on the client.
\<close>

record SftpClientCore =
  sessionId :: nat
  host :: bool
  id_s :: "int option"
  requests :: "int option \<rightharpoonup> SftpRequest"
  ready :: bool
  extensions :: "string \<rightharpoonup> ext_value"
  features :: "string \<rightharpoonup> string"
  maxReadBlockLength :: int
  maxWriteBlockLength :: int
  bytesReceived :: int
  bytesSent :: int
  sent :: "byte list list"
  closes :: "int list"
  timers :: "call list"
  calls :: "call list"

definition new_SftpClientCore :: "nat \<Rightarrow> SftpClientCore" where
  "new_SftpClientCore sid =
    \<lparr>sessionId = sid, host = False, id_s = None, requests = Map.empty, ready = False,
     extensions = Map.empty, features = Map.empty,
     maxReadBlockLength = 256 * 1024, maxWriteBlockLength = 32 * 1024,
     bytesReceived = 0, bytesSent = 0, sent = [], closes = [], timers = [], calls = []\<rparr>"

definition F_HARDLINK :: string where "F_HARDLINK = ''LINK''"
definition F_POSIX_RENAME :: string where "F_POSIX_RENAME = ''POSIX_RENAME''"

section \<open>The client core: helpers\<close>

text \<open>Running a method of a local object (a reader, a writer) inside a method of the client.\<close>

definition on_local ::
  "('o, 'a) action \<Rightarrow> 'o \<Rightarrow> ('a \<Rightarrow> 'o \<Rightarrow> ('s, 'b) action) \<Rightarrow> ('s, 'b) action" where
  "on_local m obj k s = (case m obj of (Inl e, obj') \<Rightarrow> (Inl e, s) | (Inr a, obj') \<Rightarrow> k a obj' s)"

definition invoke :: "nat \<Rightarrow> SftpErrorObject option \<Rightarrow> cb_value \<Rightarrow> (SftpClientCore, unit) action" where
  "invoke cb e v s = ret () (s\<lparr>calls := calls s @ [\<lparr>target = cb, err = e, arg = v\<rparr>]\<rparr>)"

definition setTimeout :: "nat \<Rightarrow> SftpErrorObject option \<Rightarrow> cb_value \<Rightarrow> (SftpClientCore, unit) action" where
  "setTimeout cb e v s = ret () (s\<lparr>timers := timers s @ [\<lparr>target = cb, err = e, arg = v\<rparr>]\<rparr>)"

text \<open>A later turn runs the scheduled functions in order.\<close>

definition run_timers :: "SftpClientCore \<Rightarrow> SftpClientCore" where
  "run_timers s = s\<lparr>calls := calls s @ timers s, timers := []\<rparr>"

text \<open>\<open>SftpHandle.toString\<close>\<close>

definition hex_digit :: "nat \<Rightarrow> char" where
  "hex_digit n = (if n < 10 then char_of (48 + n) else char_of (87 + n))"

definition hex_byte :: "byte \<Rightarrow> string" where
  "hex_byte b = (if unat b < 16 then ''0'' @ [hex_digit (unat b)]
                 else [hex_digit (unat b div 16), hex_digit (unat b mod 16)])"

definition handle_toString :: "SftpHandle \<Rightarrow> string" where
  "handle_toString h = ''0x'' @ concat (map hex_byte (handle_bytes h))"

definition createError :: "int \<Rightarrow> string \<Rightarrow> SftpCommandInfo \<Rightarrow> SftpErrorObject" where
  "createError native msg ci =
    (let (c, n) =
       (if native = SC_EOF then (''EOF'', 1)
        else if native = SC_NO_SUCH_FILE then (''ENOENT'', 34)
        else if native = SC_PERMISSION_DENIED then (''EACCES'', 3)
        else if native = SC_OK \<or> native = SC_FAILURE \<or> native = SC_BAD_MESSAGE then (''EFAILURE'', -2)
        else if native = SC_NO_CONNECTION then (''ENOTCONN'', 31)
        else if native = SC_CONNECTION_LOST then (''ESHUTDOWN'', 46)
        else if native = SC_OP_UNSUPPORTED then (''ENOSYS'', 35)
        else (''UNKNOWN'', -1));
       a = (case path (props ci) of
              Some p \<Rightarrow> (if p \<noteq> [] then [CHR 0x27] @ p @ [CHR 0x27]
                         else (case handle (props ci) of Some h \<Rightarrow> handle_toString h | None \<Rightarrow> ''''))
            | None \<Rightarrow> (case handle (props ci) of Some h \<Rightarrow> handle_toString h | None \<Rightarrow> ''''))
     in \<lparr>message = c @ '', '' @ command ci @ '' '' @ a,
         errno = Some n, code = Some c, nativeCode = Some native, description = Some msg,
         copied = Some (props ci)\<rparr>)"

definition checkCallback :: "callback_arg \<Rightarrow> (SftpClientCore, nat) action" where
  "checkCallback cb =
    (case cb of NotFn \<Rightarrow> throw (SftpError ''Callback must be a function'') | Fn f \<Rightarrow> ret f)"


text \<open>A buffer argument: a falsy value, a typed array, or some other value.\<close>

datatype buffer_arg = NoBuffer | Buffer "byte list" | NotBuffer


definition checkPath :: "string \<Rightarrow> string \<Rightarrow> (SftpClientCore, string) action" where
  "checkPath p name =
    (if length p = 0 then throw (SftpError (''Empty '' @ name))
     else if hd p = CHR ''~'' then
       (if length p > 1 \<and> p ! 1 = CHR ''/'' then ret (''.'' @ tl p)
        else if length p = 1 then ret ''.''
        else ret p)
     else ret p)"


definition getRequest :: "ptype \<Rightarrow> (SftpClientCore, SftpPacketWriter) action" where
  "getRequest t s =
    (if maxWriteBlockLength s + 1024 < 0 then throw (RangeError ''Invalid typed array length'') s
     else
       (let request = (new_SftpPacketWriter (maxWriteBlockLength s + 1024))\<lparr>type_p := t, id_p := id_s s\<rparr>
        in if t = TNum PT_INIT \<and> id_s s \<noteq> None then throw (SftpError ''Already initialized'') s
           else
             on_local start request (\<lambda>_ w. ret w)
               (s\<lparr>id_s := (if t = TNum PT_INIT then Some 1
                            else Some (js_and (num (id_s s) + 1) 0xFFFFFFFF))\<rparr>)))"


definition execute ::
  "SftpPacketWriter \<Rightarrow> nat \<Rightarrow> parser \<Rightarrow> SftpCommandInfo \<Rightarrow> (SftpClientCore, unit) action" where
  "execute request cb p ci s =
    (if \<not> host s
     then setTimeout cb (Some (createError SC_NO_CONNECTION ''Not connected'' ci)) Absent s
     else if requests s (id_p request) \<noteq> None then throw (SftpError ''Duplicate request'') s
     else
       on_local finish request (\<lambda>packet _ s'.
         ret () (s'\<lparr>sent := sent s' @ [packet],
                   bytesSent := bytesSent s' + int (length packet),
                   requests := (requests s')(id_p request \<mapsto>
                     \<lparr>callback = cb, responseParser = p, info = ci\<rparr>)\<rparr>))
       s)"

text \<open>
  The first argument of \<open>command\<close>: a packet type, the name of a feature, or \<open>undefined\<close>
  (which \<open>rename\<close> passes for flags it does not know). A name is looked up in the feature
  map, \<open>undefined\<close> under the key of that name.
\<close>

datatype command_arg = CommandType int | CommandFeature string | CommandUndefined

fun write_args :: "string list \<Rightarrow> (SftpPacketWriter, unit) action" where
  "write_args [] = ret ()"
| "write_args (a # as) = seq (writeString a) (\<lambda>_. write_args as)"

definition command_op ::
  "command_arg \<Rightarrow> string list \<Rightarrow> nat \<Rightarrow> parser \<Rightarrow> SftpCommandInfo \<Rightarrow> (SftpClientCore, unit) action" where
  "command_op c args cb p ci s =
    (let resolved =
       (case c of
          CommandType n \<Rightarrow> (if n = 0 then None else Some (TNum n))
        | CommandFeature f \<Rightarrow>
            (case features s f of None \<Rightarrow> None | Some e \<Rightarrow> if e = [] then None else Some (TStr e))
        | CommandUndefined \<Rightarrow>
            (case features s ''undefined'' of
               None \<Rightarrow> None | Some e \<Rightarrow> if e = [] then None else Some (TStr e)))
     in case resolved of
          None \<Rightarrow>
            setTimeout cb (Some (createError SC_OP_UNSUPPORTED ''Operation not supported'' ci)) Absent s
        | Some t \<Rightarrow>
            seq (getRequest t) (\<lambda>request.
              on_local (write_args args) request (\<lambda>_ request'. execute request' cb p ci)) s)"

section \<open>The client core: response parsers\<close>

definition readStatus :: "SftpCommandInfo \<Rightarrow> (SftpPacketReader, SftpErrorObject option) action" where
  "readStatus ci =
    seq readInt32 (\<lambda>native.
    seq readString (\<lambda>msg.
    ret (if native = SC_OK then None else Some (createError native msg ci))))"

definition readItem :: "(SftpPacketReader, SftpItem) action" where
  "readItem =
    seq readString (\<lambda>fname.
    seq readString (\<lambda>lname.
    seq SftpAttributes_read (\<lambda>attrs.
    ret \<lparr>filename = fname, longname = lname, stats_i = attrs\<rparr>)))"

definition expect_type :: "SftpPacketReader \<Rightarrow> int \<Rightarrow> (SftpClientCore, bool \<times> SftpPacketReader) action" where
  "expect_type r expected =
    (if type_p r \<noteq> TNum expected then throw (SftpError ''Unexpected packet received'')
     else ret (True, r))"

definition checkResponse ::
  "SftpPacketReader \<Rightarrow> SftpCommandInfo \<Rightarrow> int \<Rightarrow> nat
   \<Rightarrow> (SftpClientCore, bool \<times> SftpPacketReader) action" where
  "checkResponse r ci expected cb =
    (if type_p r = TNum PT_STATUS then
       on_local (readStatus ci) r (\<lambda>error r'.
         case error of
           Some e \<Rightarrow> seq (invoke cb (Some e) Absent) (\<lambda>_. ret (False, r'))
         | None \<Rightarrow> expect_type r' expected)
     else expect_type r expected)"

definition parseStatus :: "SftpPacketReader \<Rightarrow> SftpCommandInfo \<Rightarrow> nat \<Rightarrow> (SftpClientCore, unit) action" where
  "parseStatus r ci cb =
    seq (checkResponse r ci PT_STATUS cb) (\<lambda>(ok, r').
      if \<not> ok then ret () else invoke cb None Absent)"

definition parseAttribs :: "SftpPacketReader \<Rightarrow> SftpCommandInfo \<Rightarrow> nat \<Rightarrow> (SftpClientCore, unit) action" where
  "parseAttribs r ci cb =
    seq (checkResponse r ci PT_ATTRS cb) (\<lambda>(ok, r').
      if \<not> ok then ret ()
      else on_local SftpAttributes_read r' (\<lambda>attrs _.
             invoke cb None (AttrsValue (attrs\<lparr>flags_a := None\<rparr>))))"

definition parseHandle :: "SftpPacketReader \<Rightarrow> SftpCommandInfo \<Rightarrow> nat \<Rightarrow> (SftpClientCore, unit) action" where
  "parseHandle r ci cb =
    seq (checkResponse r ci PT_HANDLE cb) (\<lambda>(ok, r').
      if \<not> ok then ret ()
      else on_local (readData True) r' (\<lambda>h _ s.
             invoke cb None (HandleValue \<lparr>handle_bytes = h, owner = sessionId s\<rparr>) s))"

definition parsePath :: "SftpPacketReader \<Rightarrow> SftpCommandInfo \<Rightarrow> nat \<Rightarrow> (SftpClientCore, unit) action" where
  "parsePath r ci cb =
    seq (checkResponse r ci PT_NAME cb) (\<lambda>(ok, r').
      if \<not> ok then ret ()
      else on_local readInt32 r' (\<lambda>count r''.
             if count \<noteq> 1 then throw (SftpError ''Invalid response'')
             else on_local readString r'' (\<lambda>p _. invoke cb None (PathValue p))))"

text \<open>The loop of \<open>parseItems\<close> reads \<open>count\<close> items, none for a count below 1.\<close>

primrec read_items :: "nat \<Rightarrow> (SftpPacketReader, SftpItem list) action" where
  "read_items 0 = ret []"
| "read_items (Suc n) = seq readItem (\<lambda>item. seq (read_items n) (\<lambda>rest. ret (item # rest)))"

definition parseItems_body :: "SftpPacketReader \<Rightarrow> nat \<Rightarrow> (SftpClientCore, unit) action" where
  "parseItems_body r cb =
    (if type_p r \<noteq> TNum PT_NAME then throw (SftpError ''Unexpected packet received'')
     else on_local readInt32 r (\<lambda>count r'.
            on_local (read_items (nat count)) r' (\<lambda>items _. invoke cb None (ItemsValue items))))"

definition parseItems :: "SftpPacketReader \<Rightarrow> SftpCommandInfo \<Rightarrow> nat \<Rightarrow> (SftpClientCore, unit) action" where
  "parseItems r ci cb =
    (if type_p r = TNum PT_STATUS then
       on_local (readStatus ci) r (\<lambda>error r'.
         case error of
           Some e \<Rightarrow> (if nativeCode e = Some SC_EOF then invoke cb None (ItemsValue [])
                      else invoke cb (Some e) Null)
         | None \<Rightarrow> parseItems_body r' cb)
     else parseItems_body r cb)"

text \<open>
  \<open>parseData\<close> after the status test. The parameter \<open>length\<close> is assigned the length of the
  data before the test for empty data, so the request that is issued again and the closure
  registered with it carry that length, which is 0.
\<close>

definition parseData_body ::
  "SftpPacketReader \<Rightarrow> SftpCommandInfo \<Rightarrow> nat \<Rightarrow> int \<Rightarrow> byte list \<Rightarrow> byte list option \<Rightarrow> int \<Rightarrow> int
   \<Rightarrow> int \<Rightarrow> (SftpClientCore, unit) action" where
  "parseData_body r ci cb retries h buf offset len0 pos =
    on_local (readData False) r (\<lambda>data _.
      if int (length data) > len0 then throw (SftpError ''Received too much data'')
      else
        (let len = int (length data)
         in if len = 0 then
              (if retries > 4 then
                 invoke cb
                   (Some ((createError SC_FAILURE ''Unable to read data'' ci)
                            \<lparr>errno := Some 55, code := Some ''EIO''\<rparr>))
                   Null
               else
                 seq (getRequest (TNum PT_READ)) (\<lambda>request.
                   on_local
                     (seq (writeData h None) (\<lambda>_.
                      seq (writeInt64 pos) (\<lambda>_.
                      writeInt32 len)))
                     request
                     (\<lambda>_ request'.
                        execute request' cb (ParseData (retries + 1) h buf offset len pos) ci)))
            else
              (case buf of
                 None \<Rightarrow> invoke cb None (DataValue data len)
               | Some b \<Rightarrow>
                   (if offset < 0 \<or> offset + len > int (length b)
                    then throw (RangeError ''offset is out of bounds'')
                    else invoke cb None
                           (DataValue (take (nat offset) b @ data @ drop (nat (offset + len)) b) len)))))"

definition parseData ::
  "SftpPacketReader \<Rightarrow> SftpCommandInfo \<Rightarrow> nat \<Rightarrow> int \<Rightarrow> byte list \<Rightarrow> byte list option \<Rightarrow> int \<Rightarrow> int
   \<Rightarrow> int \<Rightarrow> (SftpClientCore, unit) action" where
  "parseData r ci cb retries h buf offset len pos =
    (if type_p r = TNum PT_STATUS then
       on_local (readStatus ci) r (\<lambda>error r'.
         case error of
           Some e \<Rightarrow>
             (if nativeCode e = Some SC_EOF
              then invoke cb None
                     (DataValue (case buf of Some b \<Rightarrow> subarray b offset 0 | None \<Rightarrow> []) 0)
              else invoke cb (Some e) Null)
         | None \<Rightarrow> parseData_body r' ci cb retries h buf offset len pos)
     else parseData_body r ci cb retries h buf offset len pos)"

text \<open>
  The loop over the extensions of a VERSION packet. A length with the top bit set is read
  as a negative number and moves the position back, so the loop need not end: the result
  is \<open>None\<close> when it does not. The value \<open>val\<close> that the source builds for a name ending in
  \<open>@openssh.com\<close> is not stored.
\<close>

partial_function (option) read_extensions ::
  "SftpPacketReader \<Rightarrow> (string \<rightharpoonup> ext_value)
   \<Rightarrow> ((exn + unit) \<times> SftpPacketReader \<times> (string \<rightharpoonup> ext_value)) option" where
  "read_extensions r exts =
    (if length_p r - position r \<ge> 4 then
       (case readString r of
          (Inl e, r1) \<Rightarrow> Some (Inl e, r1, exts)
        | (Inr extensionName, r1) \<Rightarrow>
            (case SftpExtensions_read extensionName r1 of
               (Inl e, r2) \<Rightarrow> Some (Inl e, r2, exts)
             | (Inr v, r2) \<Rightarrow>
                 (let val =
                    (if indexOf extensionName ''@openssh.com'' = int (length extensionName) - 12
                     then (case exts extensionName of
                             None \<Rightarrow> Some v
                           | Some old \<Rightarrow>
                               Some (ExtString (ext_to_string (Some old) @ '','' @ ext_to_string (Some v))))
                     else None)
                  in read_extensions r2 (exts(extensionName \<mapsto> v)))))
     else Some (Inr (), r, exts))"

declare read_extensions.simps [code]

definition init_parser ::
  "SftpPacketReader \<Rightarrow> SftpCommandInfo \<Rightarrow> nat \<Rightarrow> SftpClientCore
   \<Rightarrow> ((exn + unit) \<times> SftpClientCore) option" where
  "init_parser r ci cb s =
    (if type_p r \<noteq> TNum PT_VERSION
     then Some (invoke cb (Some (plain_error ''Protocol violation'')) Absent
                  (s\<lparr>closes := closes s @ [3002]\<rparr>))
     else
       (case readInt32 r of
          (Inl e, r1) \<Rightarrow> Some (Inl e, s)
        | (Inr version, r1) \<Rightarrow>
            if version \<noteq> 3
            then Some (invoke cb (Some (createError SC_BAD_MESSAGE ''Unexpected protocol version'' ci))
                         Absent (s\<lparr>closes := closes s @ [3002]\<rparr>))
            else
              (case read_extensions r1 (extensions s) of
                 None \<Rightarrow> None
               | Some (Inl e, r2, exts) \<Rightarrow> Some (Inl e, s\<lparr>extensions := exts\<rparr>)
               | Some (Inr u, r2, exts) \<Rightarrow>
                   (let s1 = s\<lparr>extensions := exts\<rparr>;
                        s2 = (if contains (exts HARDLINK) ''1''
                              then s1\<lparr>features := (features s1)(F_HARDLINK \<mapsto> HARDLINK)\<rparr> else s1);
                        s3 = (if contains (exts POSIX_RENAME) ''1''
                              then s2\<lparr>features := (features s2)(F_POSIX_RENAME \<mapsto> POSIX_RENAME)\<rparr>
                              else s2)
                    in Some (invoke cb None Absent (s3\<lparr>ready := True\<rparr>))))))"

definition run_parser ::
  "parser \<Rightarrow> SftpPacketReader \<Rightarrow> SftpCommandInfo \<Rightarrow> nat \<Rightarrow> SftpClientCore
   \<Rightarrow> ((exn + unit) \<times> SftpClientCore) option" where
  "run_parser p r ci cb s =
    (case p of
       ParseInit \<Rightarrow> init_parser r ci cb s
     | ParseStatus \<Rightarrow> Some (parseStatus r ci cb s)
     | ParseAttribs \<Rightarrow> Some (parseAttribs r ci cb s)
     | ParseHandle \<Rightarrow> Some (parseHandle r ci cb s)
     | ParsePath \<Rightarrow> Some (parsePath r ci cb s)
     | ParseItems \<Rightarrow> Some (parseItems r ci cb s)
     | ParseData retries h buf offset len pos \<Rightarrow>
         Some (parseData r ci cb retries h buf offset len pos s))"

section \<open>The client core: dispatch of a received packet\<close>

text \<open>
  \<open>_process\<close>: the response carries the command context of the request it matches
  (\<open>response.info = request.info\<close>), which is passed to the parser alongside the reader.
\<close>

definition process :: "byte list \<Rightarrow> SftpClientCore \<Rightarrow> ((exn + unit) \<times> SftpClientCore) option" where
  "process packet s0 =
    (let s = s0\<lparr>bytesReceived := bytesReceived s0 + int (length packet)\<rparr>
     in case new_SftpPacketReader packet of
          Inl e \<Rightarrow> Some (Inl e, s)
        | Inr response \<Rightarrow>
            (case requests s (id_p response) of
               None \<Rightarrow> Some (Inl (SftpError ''Unknown response ID''), s)
             | Some request \<Rightarrow>
                 run_parser (responseParser request) response (info request) (callback request)
                   (s\<lparr>requests := (requests s)(id_p response := None)\<rparr>)))"

section \<open>The client core: operations\<close>

definition lift_result :: "exn + 'a \<Rightarrow> ('s, 'a) action" where
  "lift_result v = (case v of Inl e \<Rightarrow> throw e | Inr a \<Rightarrow> ret a)"

definition info_of :: "string \<Rightarrow> CommandProps \<Rightarrow> SftpCommandInfo" where
  "info_of c p = \<lparr>command = c, props = p\<rparr>"

text \<open>\<open>_init\<close>; its callback is the one the caller of \<open>_bind\<close> wraps, a function.\<close>

definition init_op :: "nat \<Rightarrow> (SftpClientCore, unit) action" where
  "init_op cb s =
    (if host s then throw (SftpError ''Already bound'') s
     else
       seq (getRequest (TNum PT_INIT)) (\<lambda>request.
         on_local (writeInt32 3) request (\<lambda>_ request'.
           execute request' cb ParseInit (info_of ''init'' no_props)))
       (s\<lparr>host := True, extensions := Map.empty\<rparr>))"




















definition RF_NONE :: int where "RF_NONE = 0"
definition RF_OVERWRITE :: int where "RF_OVERWRITE = 1"

text \<open>
  \<open>rename\<close>: the default case of the switch schedules the failure and breaks, leaving
  \<open>command\<close> undefined, and the call of \<open>this.command\<close> after the switch is made in
  every case.
\<close>

definition rename_op :: "string \<Rightarrow> string \<Rightarrow> int \<Rightarrow> callback_arg \<Rightarrow> (SftpClientCore, unit) action" where
  "rename_op oldPath0 newPath0 fl cb0 =
    seq (checkCallback cb0) (\<lambda>cb.
    seq (checkPath oldPath0 ''oldPath'') (\<lambda>old.
    seq (checkPath newPath0 ''newPath'') (\<lambda>new.
      (let ci = info_of ''rename''
                  (no_props\<lparr>oldPath := Some old, newPath := Some new, rename_flags := Some fl\<rparr>)
       in seq (if fl = RF_OVERWRITE then ret (CommandFeature F_POSIX_RENAME)
               else if fl = RF_NONE then ret (CommandType PT_RENAME)
               else seq (setTimeout cb
                           (Some (createError SC_OP_UNSUPPORTED ''Unsupported rename flags'' ci))
                           Absent)
                      (\<lambda>_. ret CommandUndefined))
            (\<lambda>c. command_op c [old, new] cb ParseStatus ci)))))"





section \<open>Packets and sessions used in the examples\<close>

text \<open>
  The message handler that \<open>_bind\<close> installs passes every binary message to \<open>_process\<close> and
  catches what it throws. \<open>deliver\<close> hands a sequence of packets to it, one after the
  other.
\<close>

fun deliver :: "byte list list \<Rightarrow> SftpClientCore \<Rightarrow> SftpClientCore option" where
  "deliver [] s = Some s"
| "deliver (p # ps) s = (case process p s of None \<Rightarrow> None | Some (r, s') \<Rightarrow> deliver ps s')"




text \<open>A STATUS packet as \<open>SftpStatus.write\<close> builds it.\<close>

definition status_packet :: "int \<Rightarrow> int \<Rightarrow> string \<Rightarrow> byte list" where
  "status_packet i c msg =
    (case seq (SftpStatus_write c msg) (\<lambda>_. finish) ((new_SftpPacketWriter 1024)\<lparr>id_p := Some i\<rparr>) of
       (Inr packet, w) \<Rightarrow> packet
     | (Inl e, w) \<Rightarrow> [])"


text \<open>
  A VERSION reply for version 3 that announces \<open>statvfs@openssh.com\<close> twice, with the
  values \<open>2\<close> and \<open>3\<close>.
\<close>

definition version_reply_twice :: "byte list" where
  "version_reply_twice =
    [0, 0, 0, 61, 2, 0, 0, 0, 3]
    @ be32 19 @ utf8_bytes ''statvfs@openssh.com'' @ be32 1 @ utf8_bytes ''2''
    @ be32 19 @ utf8_bytes ''statvfs@openssh.com'' @ be32 1 @ utf8_bytes ''3''"






section \<open>What an operation leaves behind\<close>


definition extends_by :: "'a list \<Rightarrow> 'a list \<Rightarrow> nat \<Rightarrow> bool" where
  "extends_by xs ys n = (take (length xs) ys = xs \<and> length ys = length xs + n)"


text \<open>
  Two states with the same calls, packets, timers and features; and a step that keeps
  them, whatever it returns or throws.
\<close>

definition same_io :: "SftpClientCore \<Rightarrow> SftpClientCore \<Rightarrow> bool" where
  "same_io s s' =
    (calls s' = calls s \<and> sent s' = sent s \<and> timers s' = timers s \<and> features s' = features s)"

definition quiet :: "(SftpClientCore, 'a) action \<Rightarrow> bool" where
  "quiet m = (\<forall>s. same_io s (snd (m s)))"

section \<open>What a response completes\<close>

text \<open>
  The call that a parser makes for a response, when it ends by calling the callback: a
  parser that throws, or that issues the request again, completes nothing. The call is
  found by running the parser in a fresh session with the same session id.
\<close>

definition completion :: "parser \<Rightarrow> SftpPacketReader \<Rightarrow> SftpCommandInfo \<Rightarrow> nat \<Rightarrow> nat \<Rightarrow> call option" where
  "completion p r ci cb sid =
    (case run_parser p r ci cb (new_SftpClientCore sid) of
       Some (Inr u, t) \<Rightarrow> (case calls t of [c] \<Rightarrow> Some c | _ \<Rightarrow> None)
     | _ \<Rightarrow> None)"

text \<open>
  An entry \<open>(packet, r, req, c)\<close> says: the packet parses to the response \<open>r\<close>, the request
  \<open>req\<close> is pending under the id of \<open>r\<close>, it is not the INIT request, and its parser
  completes \<open>r\<close> with the call \<open>c\<close>.
\<close>

definition answers :: "SftpClientCore \<Rightarrow> byte list \<times> SftpPacketReader \<times> SftpRequest \<times> call \<Rightarrow> bool" where
  "answers s e =
    (case e of (packet, r, req, c) \<Rightarrow>
       new_SftpPacketReader packet = Inr r
       \<and> requests s (id_p r) = Some req
       \<and> responseParser req \<noteq> ParseInit
       \<and> completion (responseParser req) r (info req) (callback req) (sessionId s) = Some c)"

definition packet_of :: "byte list \<times> SftpPacketReader \<times> SftpRequest \<times> call \<Rightarrow> byte list" where
  "packet_of e = fst e"

definition reader_of :: "byte list \<times> SftpPacketReader \<times> SftpRequest \<times> call \<Rightarrow> SftpPacketReader" where
  "reader_of e = fst (snd e)"

definition id_of :: "byte list \<times> SftpPacketReader \<times> SftpRequest \<times> call \<Rightarrow> int option" where
  "id_of e = id_p (reader_of e)"

definition request_of :: "byte list \<times> SftpPacketReader \<times> SftpRequest \<times> call \<Rightarrow> SftpRequest" where
  "request_of e = fst (snd (snd e))"

definition call_of :: "byte list \<times> SftpPacketReader \<times> SftpRequest \<times> call \<Rightarrow> call" where
  "call_of e = snd (snd (snd e))"

text \<open>
  The session after the responses of the entries \<open>es\<close> have been received and the calls
  \<open>cs\<close> made: the bytes are counted, the entries are gone from the table of pending
  requests, and nothing else has changed.
\<close>

definition delivered ::
  "SftpClientCore \<Rightarrow> (byte list \<times> SftpPacketReader \<times> SftpRequest \<times> call) list \<Rightarrow> call list
   \<Rightarrow> SftpClientCore" where
  "delivered s es cs =
    s\<lparr>bytesReceived := bytesReceived s + sum_list (map (\<lambda>e. int (length (packet_of e))) es),
      requests := (\<lambda>k. if k \<in> set (map id_of es) then None else requests s k),
      calls := calls s @ cs\<rparr>"

text \<open>
  What \<open>_process\<close> hands to the parser of the request that a response matches: the response,
  the command context and the callback of the request, in a session from which the request
  has been removed.
\<close>

definition dispatched ::
  "SftpClientCore \<Rightarrow> byte list \<times> SftpPacketReader \<times> SftpRequest \<times> call
   \<Rightarrow> ((exn + unit) \<times> SftpClientCore) option" where
  "dispatched s e =
    run_parser (responseParser (request_of e)) (reader_of e) (info (request_of e))
      (callback (request_of e))
      (s\<lparr>bytesReceived := bytesReceived s + int (length (packet_of e)),
         requests := (requests s)(id_of e := None)\<rparr>)"

text \<open>
  A step whose outcome and calls depend on the session id alone, which calls nothing but
  the callback \<open>cb\<close>, and which changes nothing but the list of calls.
\<close>

definition call_only :: "nat \<Rightarrow> (SftpClientCore, 'a) action \<Rightarrow> bool" where
  "call_only cb m =
    (\<exists>g. (\<forall>s. m s = (fst (g (sessionId s)), s\<lparr>calls := calls s @ snd (g (sessionId s))\<rparr>))
        \<and> (\<forall>sid. list_all (\<lambda>c. target c = cb) (snd (g sid))))"

text \<open>A step that calls nothing.\<close>

definition calls_kept :: "(SftpClientCore, 'a) action \<Rightarrow> bool" where
  "calls_kept m = (\<forall>s. calls (snd (m s)) = calls s)"


section \<open>The flags law\<close>

lemmas open_flags_defs =
  OF_READ_def OF_WRITE_def OF_APPEND_def OF_CREATE_def OF_TRUNC_def OF_EXCL_def OF_ALL_def

lemmas flags_eval_defs =
  mask_roundtrips_def mode_roundtrips_def mask_of_first_def strings_of_mode_def
  fromNumber_def toNumber_def normalize_flags_def open_flags_defs

text \<open>
  C2, as stated, fails. The normalized mask 10 (CREATE and WRITE, with none of TRUNC, EXCL,
  APPEND) is one of the legal values, \<open>fromNumber\<close> answers \<open>[wx, r+]\<close> for it, and \<open>wx\<close>
  denotes 42, not 10. The documented mode string \<open>xw\<close> denotes 42, for which
  \<open>fromNumber\<close> answers \<open>[wx]\<close> only.
\<close>

theorem flags_law_counterexample:
  "normalize_flags 10 = 10 \<and> fromNumber 10 = Inr [''wx'', ''r+''] \<and> mask_of_first 10 = Inr 42
   \<and> \<not> mask_roundtrips 10
   \<and> toNumber (FlagsStr ''xw'') = Inr 42 \<and> strings_of_mode ''xw'' = Inr [''wx'']
   \<and> \<not> mode_roundtrips ''xw''"
  by (simp add: flags_eval_defs)

text \<open>
  C2, amended. Ten of the normalized masks are the mask of the first mode string that
  \<open>fromNumber\<close> returns for them: 1, 3, 14, 15, 26, 27, 42, 43, 46, 47. For the normalized
  masks 10 and 11, which no mode string denotes, the first string is \<open>wx\<close> or \<open>wx+\<close>, whose
  mask is the given one with EXCL added (42, 43); the normalized mask 2 gives \<open>r+\<close>, whose
  mask is 3. Ten of the mode strings are among the strings returned for their mask: r, r+,
  w, w+, wx, wx+, a, a+, ax, ax+. For the aliases xw, xw+, xa, xa+ the result holds the
  spelling wx, wx+, ax, ax+ instead.
\<close>

theorem flags_law_amended:
  "list_all mask_roundtrips [1, 3, 14, 15, 26, 27, 42, 43, 46, 47]
   \<and> map normalize_flags [2, 10, 11] = [2, 10, 11]
   \<and> map mask_of_first [2, 10, 11] = [Inr 3, Inr 42, Inr 43]
   \<and> list_all mode_roundtrips
        [''r'', ''r+'', ''w'', ''w+'', ''wx'', ''wx+'', ''a'', ''a+'', ''ax'', ''ax+'']
   \<and> map strings_of_mode [''xw'', ''xw+'', ''xa'', ''xa+'']
        = [Inr [''wx''], Inr [''wx+''], Inr [''ax''], Inr [''ax+'']]"
  by (simp add: flags_eval_defs)
section \<open>Bounds of the packet reader\<close>

lemmas action_defs = ret_def throw_def seq_def














section \<open>Words written and read back\<close>


lemma to_int32_stb: "to_int32 v = signed_take_bit 31 v"
  by (simp add: to_int32_def signed_take_bit_eq_take_bit_shift take_bit_eq_mod)

lemma js_and_255: "js_and x 255 = take_bit 8 x"
proof -
  have m: "(255::int) = mask 8" by (simp add: mask_eq_exp_minus_1)
  have "js_and x 255 = signed_take_bit 31 (signed_take_bit 31 x AND signed_take_bit 31 (mask 8))"
    by (simp add: js_and_def to_int32_stb m)
  also have "\<dots> = take_bit 8 x"
    by (rule bit_eqI) (auto simp: bit_simps)
  finally show ?thesis .
qed

lemma byte_val: "uint (of_int x :: 8 word) = take_bit 8 x"
  by (simp add: uint_word_of_int take_bit_eq_mod)

lemma nat_sub_cases: "\<not> bit v (k + (n - k)) \<Longrightarrow> bit v n \<Longrightarrow> n < (k::nat)"
  by (cases "k \<le> n") auto

lemma compose32:
  "js_or (js_or (js_or (js_or 0 (js_shl (take_bit 8 (js_sar v 24)) 24))
                       (js_shl (take_bit 8 (js_sar v 16)) 16))
                (js_shl (take_bit 8 (js_sar v 8)) 8))
         (take_bit 8 v) = to_int32 v"
  unfolding js_or_def js_shl_def js_sar_def to_int32_stb
  apply (rule bit_eqI)
  apply (auto simp: bit_simps dest: nat_sub_cases)
  done


lemma readUint32_ok:
  "4 \<le> length_p r - position r \<Longrightarrow>
   readUint32 r = (Inr (word32_at (buffer r) (position r)), r\<lparr>position := position r + 4\<rparr>)"
  by (simp add: readUint32_def action_defs check_def next_byte_def word32_at_def Let_def add.commute)

lemma writeInt32_ok:
  "4 \<le> length_p w - position w \<Longrightarrow>
   writeInt32 v w = (Inr (), w\<lparr>wbuffer := store_all (wbuffer w) (length_p w) (position w) (be32 v),
                                position := position w + 4\<rparr>)"
  by (simp add: writeInt32_def action_defs check_def put_byte_def be32_def Let_def)

lemma byte_at_middle:
  "k < length xs \<Longrightarrow>
   byte_at (pre @ xs @ post) (int (length pre) + int k) = take_bit 8 (uint (xs ! k))"
  by (simp add: byte_at_def nth_append js_and_255 nat_add_distrib)

lemma word32_at_be32:
  "word32_at (pre @ be32 v @ post) (int (length pre)) = to_int32 v"
proof -
  have l: "length (be32 v) = 4" by (simp add: be32_def)
  have b0: "byte_at (pre @ be32 v @ post) (int (length pre)) = take_bit 8 (js_sar v 24)"
    using byte_at_middle [of 0 "be32 v" pre post] l
    by (simp add: be32_def js_and_255 byte_val)
  have b1: "byte_at (pre @ be32 v @ post) (int (length pre) + 1) = take_bit 8 (js_sar v 16)"
    using byte_at_middle [of 1 "be32 v" pre post] l
    by (simp add: be32_def js_and_255 byte_val)
  have b2: "byte_at (pre @ be32 v @ post) (int (length pre) + 2) = take_bit 8 (js_sar v 8)"
    using byte_at_middle [of 2 "be32 v" pre post] l
    by (simp add: be32_def js_and_255 byte_val)
  have b3: "byte_at (pre @ be32 v @ post) (int (length pre) + 3) = take_bit 8 v"
    using byte_at_middle [of 3 "be32 v" pre post] l
    by (simp add: be32_def js_and_255 byte_val)
  show ?thesis
    unfolding word32_at_def b0 b1 b2 b3 by (rule compose32)
qed


lemma to_int32_idem: "to_int32 (to_int32 v) = to_int32 v"
  by (simp add: to_int32_stb)

lemma to_int32_id: "- (2 ^ 31) \<le> v \<Longrightarrow> v < 2 ^ 31 \<Longrightarrow> to_int32 v = v"
  by (simp add: to_int32_stb signed_take_bit_int_eq_self)

lemma to_int32_range: "- (2 ^ 31) \<le> to_int32 v \<and> to_int32 v < 2 ^ 31"
  unfolding to_int32_def
  using pos_mod_bound [of "2 ^ 32" "v + 2 ^ 31"] pos_mod_sign [of "2 ^ 32" "v + 2 ^ 31"]
  by simp

lemma js_or_0: "js_or v 0 = to_int32 v"
  by (simp add: js_or_def to_int32_idem to_int32_def [of 0])

lemma store_all_below: "i < nat p \<Longrightarrow> 0 \<le> p \<Longrightarrow> store_all f cap p bs i = f i"
  by (induction bs arbitrary: f p) (auto simp: store_def)

lemma store_all_written:
  "0 \<le> p \<Longrightarrow> p + int (length bs) \<le> cap \<Longrightarrow>
   map (store_all f cap p bs) [0..<nat p + length bs] = map f [0..<nat p] @ bs"
proof (induction bs arbitrary: f p)
  case Nil
  then show ?case by simp
next
  case (Cons b bs)
  have n: "nat (p + 1) = Suc (nat p)" using Cons.prems by simp
  have "map (store_all (store f cap p b) cap (p + 1) bs) [0..<nat (p + 1) + length bs]
      = map (store f cap p b) [0..<nat (p + 1)] @ bs"
    using Cons.prems by (intro Cons.IH) auto
  moreover have "map (store f cap p b) [0..<nat (p + 1)] = map f [0..<nat p] @ [b]"
    using Cons.prems by (simp add: n store_def)
  ultimately show ?case by (simp add: n)
qed

lemma store_all_append:
  "store_all f cap p (xs @ ys) = store_all (store_all f cap p xs) cap (p + int (length xs)) ys"
  by (induction xs arbitrary: f p) (simp_all add: add.assoc)




lemma to_int32_0 [simp]: "to_int32 0 = 0" by (simp add: to_int32_def)

lemma to_int32_small: "0 \<le> v \<Longrightarrow> v < 16 \<Longrightarrow> to_int32 v = v"
  by (simp add: to_int32_def)

lemma js_or_small: "0 \<le> a \<Longrightarrow> a < 16 \<Longrightarrow> 0 \<le> b \<Longrightarrow> b < 16 \<Longrightarrow> js_or a b = a OR b"
proof -
  assume a: "0 \<le> a" "a < 16" and b: "0 \<le> b" "b < 16"
  have "a OR b < 2 ^ 4" using a b by (intro OR_upper) auto
  moreover have "0 \<le> a OR b" using a b by simp
  ultimately show ?thesis using a b by (simp add: js_or_def to_int32_small)
qed

lemma js_and_small: "0 \<le> a \<Longrightarrow> a < 16 \<Longrightarrow> 0 \<le> b \<Longrightarrow> b < 16 \<Longrightarrow> js_and a b = a AND b"
proof -
  assume a: "0 \<le> a" "a < 16" and b: "0 \<le> b" "b < 16"
  have "a AND b \<le> a" using a b by (intro AND_upper1) auto
  moreover have "0 \<le> a AND b" using a b by simp
  ultimately show ?thesis using a b by (simp add: js_and_def to_int32_small)
qed

lemma sign_bit_mask: "to_int32 0x80000000 = NOT (mask 31)"
proof -
  have "to_int32 0x80000000 = - (2 ^ 31)" by (simp add: to_int32_def)
  then show ?thesis by (simp only: minus_exp_eq_not_mask)
qed

lemma js_and_sign_bit: "js_and v 0x80000000 = (if bit v 31 then - (2 ^ 31) else 0)"
proof -
  have "js_and v 0x80000000 = signed_take_bit 31 (signed_take_bit 31 v AND NOT (mask 31))"
    unfolding js_and_def sign_bit_mask by (simp only: to_int32_stb)
  also have "\<dots> = (if bit v 31 then NOT (mask 31) else 0)"
    by (rule bit_eqI) (auto simp: bit_simps min_def split: if_splits)
  also have "\<dots> = (if bit v 31 then - (2 ^ 31) else 0)"
    by (simp only: minus_exp_eq_not_mask)
  finally show ?thesis .
qed

lemma js_and_sign: "js_and (to_int32 u) 0x80000000 \<noteq> 0 \<longleftrightarrow> to_int32 u < 0"
  by (simp add: js_and_sign_bit to_int32_stb bit_simps)

lemma js_and_ext_small: "0 \<le> a \<Longrightarrow> a < 16 \<Longrightarrow> js_and a 0x80000000 = 0"
  using js_and_sign [of a] by (simp add: to_int32_small)

lemma js_and_all: "js_and v 0xFFFFFFFF = to_int32 v"
proof -
  have t: "to_int32 0xFFFFFFFF = - 1" by (simp add: to_int32_def)
  show ?thesis by (simp add: js_and_def t to_int32_idem)
qed

lemma trunc_quot_small: "\<bar>v\<bar> < d \<Longrightarrow> trunc_quot v d = 0"
  by (simp add: trunc_quot_def abs_if split: if_splits)


section \<open>Attributes written and read back\<close>


lemma length_be32: "length (be32 v) = 4" by (simp add: be32_def)

lemma readInt32_ok:
  "4 \<le> length_p r - position r \<Longrightarrow>
   readInt32 r = (Inr (let v = word32_at (buffer r) (position r)
                       in if js_and v 0x80000000 \<noteq> 0 then v - 0x100000000 else v),
                  r\<lparr>position := position r + 4\<rparr>)"
  by (simp add: readInt32_def action_defs readUint32_ok Let_def)

lemma byte_at_shift:
  "int (length xs) \<le> p \<Longrightarrow> byte_at (xs @ rest) p = byte_at rest (p - int (length xs))"
  by (auto simp: byte_at_def nth_append nat_diff_distrib)

lemma word32_at_shift:
  "4 \<le> p \<Longrightarrow> word32_at (be32 u @ rest) p = word32_at rest (p - 4)"
  by (simp add: word32_at_def byte_at_shift [of "be32 u"] length_be32 algebra_simps)

lemma word32_at_head: "word32_at (be32 v @ post) 0 = to_int32 v"
  using word32_at_be32 [of "[]" v post] by simp

lemma word32_at_only: "word32_at (be32 v) 0 = to_int32 v"
  using word32_at_be32 [of "[]" v "[]"] by simp

lemma store_all_join:
  "q = p + int (length xs) \<Longrightarrow>
   store_all (store_all f cap p xs) cap q ys = store_all f cap p (xs @ ys)"
  by (simp add: store_all_append)

lemma written_from_start:
  "n = length bs \<Longrightarrow> int (length bs) \<le> cap \<Longrightarrow> map (store_all f cap 0 bs) [0..<n] = bs"
  using store_all_written [of 0 bs cap f] by simp

lemma trunc_quot_to_int32: "trunc_quot (to_int32 s) 4294967296 = 0"
  using to_int32_range [of s] by (intro trunc_quot_small) (simp add: abs_if)

lemma readInt64_ok:
  "8 \<le> length_p r - position r \<Longrightarrow>
   readInt64 r =
     (Inr ((let v = word32_at (buffer r) (position r)
            in if js_and v 0x80000000 \<noteq> 0 then v - 0x100000000 else v) * 0x100000000
           + word32_at (buffer r) (position r + 4)),
      r\<lparr>position := position r + 8\<rparr>)"
  by (simp add: readInt64_def action_defs readInt32_ok readUint32_ok Let_def)


lemma js_and_0: "js_and 0 x = 0"
  by (simp add: js_and_def)

lemmas attr_flag_defs =
  AF_SIZE_def AF_UIDGID_def AF_PERMISSIONS_def AF_ACMODTIME_def AF_EXTENDED_def

lemmas attr_write_simps =
  recode_def fromMetadata_def SftpAttributes_from_def new_SftpAttributes_def
  encode_attrs_def SftpAttributes_write_def new_SftpPacketWriter_def
  attr_flag_defs js_or_small js_and_small js_and_ext_small js_or_0 num_def action_defs
  writeInt32_ok writeInt64_def write_seconds_def Let_def js_and_all to_int32_idem written_def
  store_all_join written_from_start length_be32

lemmas attr_read_simps =
  decode_attrs_def SftpAttributes_read_def raw_reader_def action_defs
  readUint32_ok readInt32_ok readInt64_ok word32_at_shift word32_at_head word32_at_only
  attr_flag_defs js_and_small to_int32_small trunc_quot_to_int32 js_and_sign Let_def
  to_int32_idem recoded_def mask_of_def reread32_def num_def js_and_0 length_be32

lemma recode_eq:
  assumes "atime_s stats = None \<longleftrightarrow> mtime_s stats = None"
  shows "recode (Some stats) = Inr (recoded stats)"
proof -
  obtain m u g s a b n where st:
    "stats = \<lparr>mode_s = m, uid_s = u, gid_s = g, size_s = s, atime_s = a, mtime_s = b, nlink_s = n\<rparr>"
    by (cases stats)
  show ?thesis
    unfolding st using assms [unfolded st]
    apply (cases m; cases u; cases g; cases s; cases a; cases b)
    apply (simp_all add: attr_write_simps)
    apply (simp_all add: attr_read_simps)
    done
qed


lemma trunc_quot_whole: "0 \<le> ms \<Longrightarrow> trunc_quot ms 1000 = ms div 1000"
  by (simp add: trunc_quot_def)

lemma keeps_number_recoded:
  "keeps_number v \<Longrightarrow> map_option to_int32 v = v \<and> reread32 (num v) = num v"
  by (cases v) (simp_all add: keeps_number_def reread32_def num_def to_int32_id)

lemma keeps_time_recoded:
  "keeps_time v \<Longrightarrow> map_option (\<lambda>ms. 1000 * to_int32 (trunc_quot ms 1000)) v = v"
proof (cases v)
  case None
  then show ?thesis by simp
next
  case (Some ms)
  assume "keeps_time v"
  with Some have r: "0 \<le> ms" "ms mod 1000 = 0" "ms div 1000 < 2 ^ 31"
    by (simp_all add: keeps_time_def)
  from r(1) have "0 \<le> ms div 1000" by simp
  with r have "to_int32 (ms div 1000) = ms div 1000"
    by (intro to_int32_id) simp_all
  moreover from r(2) have "1000 * (ms div 1000) = ms" by auto
  ultimately show ?thesis using Some r(1) by (simp add: trunc_quot_whole)
qed

text \<open>
  C5, as stated, fails. From a metadata object that defines \<open>uid\<close> only, \<open>from\<close> sets the
  UIDGID bit and stores \<open>gid\<close> as 0, so the decoded record holds a \<open>gid\<close> that the
  metadata object did not define.
\<close>

theorem attrs_roundtrip_counterexample:
  "gid_s \<lparr>mode_s = None, uid_s = Some 7, gid_s = None, size_s = None, atime_s = None,
          mtime_s = None, nlink_s = None\<rparr> = None
   \<and> recode (Some \<lparr>mode_s = None, uid_s = Some 7, gid_s = None, size_s = None, atime_s = None,
                    mtime_s = None, nlink_s = None\<rparr>)
       = Inr \<lparr>flags_a = Some 2, size_a = None, uid_a = Some 7, gid_a = Some 0, mode_a = None,
              atime_a = None, mtime_a = None, nlink_a = None\<rparr>"
  by code_simp

text \<open>
  C5, amended. Take a metadata object in which a subset of size, uid, gid, mode, atime,
  mtime is defined, with atime and mtime defined together or not at all, every number a
  whole number from 0 up to \<open>2 ^ 31\<close> and every time a whole number of seconds in that
  range. Decoding the encoding of the record that \<open>from\<close> builds gives a record in which
  size, mode, atime and mtime are present exactly when they were defined, with their
  values; uid and gid are both present when at least one of them was defined, the other
  one as 0, and both absent otherwise.
\<close>

theorem attrs_roundtrip_amended:
  assumes "atime_s stats = None \<longleftrightarrow> mtime_s stats = None"
    and "keeps_number (size_s stats)" and "keeps_number (uid_s stats)"
    and "keeps_number (gid_s stats)" and "keeps_number (mode_s stats)"
    and "keeps_time (atime_s stats)" and "keeps_time (mtime_s stats)"
  shows "recode (Some stats) =
    Inr \<lparr>flags_a = Some (mask_of stats),
         size_a = size_s stats,
         uid_a = (if uid_s stats \<noteq> None \<or> gid_s stats \<noteq> None then Some (num (uid_s stats)) else None),
         gid_a = (if uid_s stats \<noteq> None \<or> gid_s stats \<noteq> None then Some (num (gid_s stats)) else None),
         mode_a = mode_s stats,
         atime_a = atime_s stats,
         mtime_a = mtime_s stats,
         nlink_a = None\<rparr>"
  using assms
  by (simp add: recode_eq recoded_def keeps_number_recoded keeps_time_recoded)

theorem attrs_roundtrip_amended_witness:
  "recode (Some \<lparr>mode_s = Some 420, uid_s = Some 7, gid_s = None, size_s = Some 5,
                  atime_s = Some 4000, mtime_s = Some 5000, nlink_s = None\<rparr>)
   = Inr \<lparr>flags_a = Some 15, size_a = Some 5, uid_a = Some 7, gid_a = Some 0, mode_a = Some 420,
          atime_a = Some 4000, mtime_a = Some 5000, nlink_a = None\<rparr>"
  using attrs_roundtrip_amended [of "\<lparr>mode_s = Some 420, uid_s = Some 7, gid_s = None,
    size_s = Some 5, atime_s = Some 4000, mtime_s = Some 5000, nlink_s = None\<rparr>"]
  by (simp add: keeps_number_def keeps_time_def mask_of_def num_def)

section \<open>Decoding of extension values\<close>

text \<open>
  C7: what the code does with the known names. \<open>isKnown\<close> looks the extension name up
  among the property names of the class, which are the identifiers \<open>HARDLINK\<close>,
  \<open>POSIX_RENAME\<close>, ..., not the extension names they hold. It answers false for every
  name of the registry, so \<open>read\<close> decodes the value of \<open>hardlink@openssh.com\<close> as
  opaque data (the byte 49) and not as the string \<open>1\<close>; and it answers true for the
  identifier \<open>HARDLINK\<close>, which is the name of no extension, so that value is decoded as
  a string.
\<close>

theorem known_extension_not_known:
  "list_all (\<lambda>name. \<not> isKnown name)
     [POSIX_RENAME, STATVFS, FSTATVFS, HARDLINK, FSYNC, NEWLINE, NEWLINE2, CHARSET, METADATA,
      VERSIONS]
   \<and> SftpExtensions_read HARDLINK (raw_reader [0, 0, 0, 1, 49])
       = (Inr (ExtData [49]), (raw_reader [0, 0, 0, 1, 49])\<lparr>position := 5\<rparr>)
   \<and> isKnown ''HARDLINK''
   \<and> SftpExtensions_read ''HARDLINK'' (raw_reader [0, 0, 0, 1, 49])
       = (Inr (ExtString ''1''), (raw_reader [0, 0, 0, 1, 49])\<lparr>position := 5\<rparr>)"
  by code_simp

section \<open>Operations that fail locally\<close>

lemma checkPath_nonempty:
  "p \<noteq> [] \<Longrightarrow> \<exists>p'. checkPath p name s = (Inr p', s)"
  by (simp add: checkPath_def ret_def throw_def)

text \<open>
  C10. A call of \<open>rename\<close> with non-empty paths and flags other than NONE and OVERWRITE
  sends nothing and calls nothing back at once. It schedules its callback twice, first with
  the error of the switch ("Unsupported rename flags"), then with the error of \<open>command\<close>
  ("Operation not supported"), both with the status OP_UNSUPPORTED, so the later turn calls
  the callback two times. The feature map has no entry under the name \<open>undefined\<close>: the
  client only ever stores the features LINK and POSIX_RENAME.
\<close>

theorem rename_unsupported_flags:
  assumes "old \<noteq> []" and "new \<noteq> []" and "fl \<noteq> RF_NONE" and "fl \<noteq> RF_OVERWRITE"
    and "features s ''undefined'' = None"
  shows "\<exists>old' new' s'.
      checkPath old ''oldPath'' s = (Inr old', s) \<and> checkPath new ''newPath'' s = (Inr new', s)
    \<and> rename_op old new fl (Fn cb) s = (Inr (), s')
    \<and> timers s' = timers s @
        [\<lparr>target = cb,
          err = Some (createError SC_OP_UNSUPPORTED ''Unsupported rename flags''
                  (info_of ''rename''
                    (no_props\<lparr>oldPath := Some old', newPath := Some new', rename_flags := Some fl\<rparr>))),
          arg = Absent\<rparr>,
         \<lparr>target = cb,
          err = Some (createError SC_OP_UNSUPPORTED ''Operation not supported''
                  (info_of ''rename''
                    (no_props\<lparr>oldPath := Some old', newPath := Some new', rename_flags := Some fl\<rparr>))),
          arg = Absent\<rparr>]
    \<and> sent s' = sent s \<and> calls s' = calls s
    \<and> calls (run_timers s') = calls s @ timers s'"
proof -
  from assms(1) obtain old' where o: "checkPath old ''oldPath'' s = (Inr old', s)"
    using checkPath_nonempty by blast
  from assms(2) obtain new' where n: "checkPath new ''newPath'' s = (Inr new', s)"
    using checkPath_nonempty by blast
  show ?thesis
    using assms(3-5) o n
    by (simp add: rename_op_def seq_def checkCallback_def ret_def setTimeout_def command_op_def
        info_of_def run_timers_def Let_def)
qed

theorem rename_unsupported_flags_witness:
  "\<exists>s'. rename_op ''a'' ''~/b'' 2 (Fn 9) ((new_SftpClientCore 1)\<lparr>host := True\<rparr>) = (Inr (), s')
    \<and> map (\<lambda>c. (target c, map_option description (err c), map_option nativeCode (err c))) (timers s')
        = [(9, Some (Some ''Unsupported rename flags''), Some (Some 8)),
           (9, Some (Some ''Operation not supported''), Some (Some 8))]
    \<and> sent s' = [] \<and> calls s' = []
    \<and> map target (calls (run_timers s')) = [9, 9]"
proof -
  have f: "features ((new_SftpClientCore 1)\<lparr>host := True\<rparr>) ''undefined'' = None"
    by (simp add: new_SftpClientCore_def)
  from rename_unsupported_flags [of "''a''" "''~/b''" 2 "(new_SftpClientCore 1)\<lparr>host := True\<rparr>" 9]
  obtain old' new' s' where
    r: "rename_op ''a'' ''~/b'' 2 (Fn 9) ((new_SftpClientCore 1)\<lparr>host := True\<rparr>) = (Inr (), s')"
    and t: "timers s' = timers ((new_SftpClientCore 1)\<lparr>host := True\<rparr>) @
        [\<lparr>target = 9,
          err = Some (createError SC_OP_UNSUPPORTED ''Unsupported rename flags''
                  (info_of ''rename''
                    (no_props\<lparr>oldPath := Some old', newPath := Some new', rename_flags := Some 2\<rparr>))),
          arg = Absent\<rparr>,
         \<lparr>target = 9,
          err = Some (createError SC_OP_UNSUPPORTED ''Operation not supported''
                  (info_of ''rename''
                    (no_props\<lparr>oldPath := Some old', newPath := Some new', rename_flags := Some 2\<rparr>))),
          arg = Absent\<rparr>]"
    and u: "sent s' = sent ((new_SftpClientCore 1)\<lparr>host := True\<rparr>)"
       "calls s' = calls ((new_SftpClientCore 1)\<lparr>host := True\<rparr>)"
       "calls (run_timers s') = calls ((new_SftpClientCore 1)\<lparr>host := True\<rparr>) @ timers s'"
    using f by (auto simp: RF_NONE_def RF_OVERWRITE_def)
  show ?thesis
    using r t u
    by (intro exI [of _ s'])
       (simp add: new_SftpClientCore_def createError_def SC_OP_UNSUPPORTED_def SC_EOF_def
          SC_NO_SUCH_FILE_def SC_PERMISSION_DENIED_def SC_OK_def SC_FAILURE_def SC_BAD_MESSAGE_def
          SC_NO_CONNECTION_def SC_CONNECTION_LOST_def Let_def)
qed

section \<open>Reads\<close>

lemma subarray_to_0: "subarray b offset 0 = []"
  by (simp add: subarray_def clamp_index_def Let_def)

text \<open>
  C4. When the response to a read is a STATUS packet whose code is EOF (followed by its
  message), \<open>parseData\<close> calls the callback once, with a null error and the result of zero
  bytes: \<open>bytesRead\<close> 0 and an empty buffer, whether or not the caller gave a buffer.
\<close>

theorem read_eof_is_success:
  assumes "type_p r = TNum PT_STATUS"
    and "readInt32 r = (Inr SC_EOF, r1)" and "readString r1 = (Inr msg, r2)"
  shows "parseData r ci cb retries h buf offset len pos s
    = (Inr (), s\<lparr>calls := calls s @ [\<lparr>target = cb, err = None, arg = DataValue [] 0\<rparr>]\<rparr>)"
  using assms
  by (cases buf)
     (simp_all add: parseData_def on_local_def readStatus_def seq_def ret_def invoke_def
        createError_def SC_EOF_def SC_OK_def subarray_to_0 Let_def)

theorem read_eof_is_success_witness:
  "parseData
     \<lparr>type_p = TNum 101, id_p = Some 1, position = 9, length_p = 24,
      buffer = [0, 0, 0, 20, 101, 0, 0, 0, 1, 0, 0, 0, 1, 0, 0, 0, 3, 101, 111, 102, 0, 0, 0, 0]\<rparr>
     (info_of ''read'' no_props) 5 0 [7, 8] (Some [1, 2, 3]) 1 2 1000 (new_SftpClientCore 1)
   = (Inr (), (new_SftpClientCore 1)\<lparr>calls := calls (new_SftpClientCore 1)
        @ [\<lparr>target = 5, err = None, arg = DataValue [] 0\<rparr>]\<rparr>)"
proof -
  have a: "readInt32
     \<lparr>type_p = TNum 101, id_p = Some 1, position = 9, length_p = 24,
      buffer = [0, 0, 0, 20, 101, 0, 0, 0, 1, 0, 0, 0, 1, 0, 0, 0, 3, 101, 111, 102, 0, 0, 0, 0]\<rparr>
     = (Inr SC_EOF,
     \<lparr>type_p = TNum 101, id_p = Some 1, position = 13, length_p = 24,
      buffer = [0, 0, 0, 20, 101, 0, 0, 0, 1, 0, 0, 0, 1, 0, 0, 0, 3, 101, 111, 102, 0, 0, 0, 0]\<rparr>)"
    by code_simp
  have b: "readString
     \<lparr>type_p = TNum 101, id_p = Some 1, position = 13, length_p = 24,
      buffer = [0, 0, 0, 20, 101, 0, 0, 0, 1, 0, 0, 0, 1, 0, 0, 0, 3, 101, 111, 102, 0, 0, 0, 0]\<rparr>
     = (Inr ''eof'',
     \<lparr>type_p = TNum 101, id_p = Some 1, position = 20, length_p = 24,
      buffer = [0, 0, 0, 20, 101, 0, 0, 0, 1, 0, 0, 0, 1, 0, 0, 0, 3, 101, 111, 102, 0, 0, 0, 0]\<rparr>)"
    by code_simp
  show ?thesis
    by (rule read_eof_is_success [OF _ a b]) (simp add: PT_STATUS_def)
qed

section \<open>Requests as they are written\<close>


lemma store_apply:
  "store f cap p b i = (if 0 \<le> p \<and> p < cap \<and> i = nat p then b else f i)"
  by (auto simp: store_def)

lemma store_all_apply:
  "0 \<le> p \<Longrightarrow>
   store_all f cap p bs i =
     (if nat p \<le> i \<and> i < nat p + length bs \<and> int i < cap then bs ! (i - nat p) else f i)"
proof (induction bs arbitrary: f p)
  case Nil
  then show ?case by auto
next
  case (Cons b bs)
  have n: "nat (p + 1) = Suc (nat p)" using Cons.prems by simp
  have "0 \<le> p + 1" using Cons.prems by simp
  note IH = Cons.IH [OF this, of "store f cap p b"]
  have ip: "int (nat p) = p" using Cons.prems by simp
  show ?case
    unfolding store_all.simps IH
    using Cons.prems ip by (auto simp: n store_apply nth_Cons' Suc_diff_le simp del: int_nat_eq)
qed

lemma store_all_overwrite:
  assumes "0 \<le> p" and "length zs = length xs"
  shows "store_all (store_all f cap p (xs @ ys)) cap p zs = store_all f cap p (zs @ ys)"
  by (rule ext) (use assms in \<open>auto simp: store_all_apply nth_append\<close>)


lemma store_as_store_all: "store f cap p b = store_all f cap p [b]"
  by simp




lemma finish_ok:
  assumes "4 \<le> position w" and "position w \<le> length_p w"
    and "wbuffer w = store_all f (length_p w) 0 (xs @ ys)" and "length xs = 4"
    and "position w = int (length (xs @ ys))"
  shows "fst (finish w) = Inr (be32 (position w - 4) @ ys)"
  using assms
  by (simp add: finish_def action_defs writeInt32_ok Let_def store_all_overwrite length_be32
      written_from_start min_def)


section \<open>The read that is issued again\<close>



lemma seq_Inl: "m s = (Inl e, s') \<Longrightarrow> seq m f s = (Inl e, s')"
  by (simp add: seq_def)

lemma on_local_Inr: "m obj = (Inr a, obj') \<Longrightarrow> on_local m obj k s = k a obj' s"
  by (simp add: on_local_def)

lemma on_local_Inl: "m obj = (Inl e, obj') \<Longrightarrow> on_local m obj k s = (Inl e, s)"
  by (simp add: on_local_def)













section \<open>Empty responses to a read\<close>


















section \<open>Extensions of the VERSION reply\<close>

text \<open>
  C6: what the code does with a repeated OpenSSH extension. The VERSION reply announces
  \<open>statvfs@openssh.com\<close> twice, with the values \<open>2\<close> and \<open>3\<close>. The loop builds the joined
  value in \<open>val\<close> but stores \<open>value\<close>, so after the handshake the extension map holds the
  later value alone (the byte 51, the character \<open>3\<close>), and not the earlier value with the
  later one appended.
\<close>

theorem repeated_extension_overwrites:
  "map_option (\<lambda>s. (extensions s STATVFS, ready s, map target (calls s)))
     (deliver [version_reply_twice] (snd (init_op 0 (new_SftpClientCore 1))))
   = Some (Some (ExtData [51]), True, [0])"
  by code_simp

section \<open>How a call of an operation ends\<close>




lemma quiet_ret: "quiet (ret a)" by (simp add: quiet_def ret_def same_io_def)
lemma quiet_throw: "quiet (throw e)" by (simp add: quiet_def throw_def same_io_def)







lemma quiet_on_local: "(\<And>a obj'. quiet (k a obj')) \<Longrightarrow> quiet (on_local m obj k)"
  unfolding quiet_def on_local_def
  by (auto split: prod.splits sum.splits simp: same_io_def)




lemma extends_by_snoc: "extends_by xs (xs @ [x]) 1"
  by (simp add: extends_by_def)





section \<open>Operations and their callbacks\<close>


lemma quiet_lift_result: "quiet (lift_result v)"
  by (cases v) (simp_all add: lift_result_def quiet_ret quiet_throw)




















end
